theory Spec2Isabelle
  imports Main
begin

section \<open>The debug domain read by the actions\<close>

text \<open>
  The debug actions read the debug service, its model, its view model and its
  configuration manager. None of these collaborators is part of the source under study,
  so only the observations the actions make are kept: one record field per getter the
  source calls.
\<close>

text \<open>
  Modelled from the spec: the enumeration \<^verbatim>\<open>State\<close> is imported from a missing file; the
  spec lists its four phases.
\<close>

datatype State = Inactive | Initializing | Stopped | Running

datatype error = TypeError | EvaluateError string

text \<open>A promise that has settled: \<^verbatim>\<open>Promise.resolve(v)\<close> or a rejection.\<close>

datatype 'a promise = Resolved 'a | Rejected error

text \<open>
  Modelled from the spec: the breakpoint and expression classes are imported from missing
  files. A breakpoint-like entity has an identifier and an enabled flag, a function
  breakpoint also a name, a watch expression an identifier and a name that may be
  empty; a launch answers with the names of its configurations.
\<close>

record Breakpoint =
  bp_id :: string
  bp_enabled :: bool

record FunctionBreakpoint =
  fbp_id :: string
  fbp_enabled :: bool
  fbp_name :: string

record ExceptionBreakpoint =
  ebp_filter :: string
  ebp_enabled :: bool

record Expression =
  we_id :: string
  we_name :: string

record Launch =
  getConfigurationNames :: "string list"

text \<open>
  Modelled from the spec: the interface of the debug service is imported from a missing
  file. The fields are what the source reads: \<^verbatim>\<open>state\<close>; of \<^verbatim>\<open>getModel()\<close> the sessions
  (by label), the three breakpoint collections, the watch expressions and whether
  breakpoints are activated; of \<^verbatim>\<open>getConfigurationManager()\<close> the launches; of
  \<^verbatim>\<open>getViewModel()\<close> the function breakpoint selected for editing.
\<close>

record DebugService =
  state :: State
  getSessions :: "string list"
  getLaunches :: "Launch list"
  getBreakpoints :: "Breakpoint list"
  getFunctionBreakpoints :: "FunctionBreakpoint list"
  getExceptionBreakpoints :: "ExceptionBreakpoint list"
  getWatchExpressions :: "Expression list"
  getSelectedFunctionBreakpoint :: "FunctionBreakpoint option"
  areBreakpointsActivated :: bool

text \<open>
  The array methods of the source language that the predicates use. \<^verbatim>\<open>every\<close> is true
  and \<^verbatim>\<open>some\<close> is false on the empty array; \<^verbatim>\<open>!!s\<close> on a string is true exactly when
  the string is not empty.
\<close>

primrec every :: "('a \<Rightarrow> bool) \<Rightarrow> 'a list \<Rightarrow> bool" where
  "every p [] = True"
| "every p (x # xs) = (p x \<and> every p xs)"

primrec some :: "('a \<Rightarrow> bool) \<Rightarrow> 'a list \<Rightarrow> bool" where
  "some p [] = False"
| "some p (x # xs) = (p x \<or> some p xs)"

definition truthy :: "string \<Rightarrow> bool" where
  "truthy s = (s \<noteq> [])"

section \<open>Enablement predicates\<close>

text \<open>The classes that extend \<^verbatim>\<open>AbstractDebugAction\<close>.\<close>

datatype action_class =
    ConfigureAction
  | StartAction
  | RunAction
  | SelectAndStartAction
  | RemoveBreakpointAction
  | RemoveAllBreakpointsAction
  | EnableAllBreakpointsAction
  | DisableAllBreakpointsAction
  | ToggleBreakpointsActivatedAction
  | ReapplyBreakpointsAction
  | AddFunctionBreakpointAction
  | AddWatchExpressionAction
  | EditWatchExpressionAction
  | RemoveWatchExpressionAction
  | RemoveAllWatchExpressionsAction
  | FocusSessionAction

text \<open>\<^verbatim>\<open>AbstractDebugAction.isEnabled\<close>: the default predicate.\<close>

definition AbstractDebugAction_isEnabled :: "State \<Rightarrow> bool" where
  "AbstractDebugAction_isEnabled s = True"

text \<open>The static \<^verbatim>\<open>StartAction.isEnabled(debugService)\<close>, with its two early returns.\<close>

definition StartAction_isEnabled :: "DebugService \<Rightarrow> bool" where
  "StartAction_isEnabled ds =
     (let sessions = getSessions ds in
      if state ds = Initializing then False
      else if length sessions > 0
              \<and> every (\<lambda>l. length (getConfigurationNames l) = 0) (getLaunches ds)
      then False
      else True)"

text \<open>
  The three breakpoint collections seen through \<^verbatim>\<open>IEnablement\<close>, concatenated in the
  order of the source: line, function, exception.
\<close>

definition allEnablements :: "DebugService \<Rightarrow> bool list" where
  "allEnablements ds =
     map bp_enabled (getBreakpoints ds)
       @ map fbp_enabled (getFunctionBreakpoints ds)
       @ map ebp_enabled (getExceptionBreakpoints ds)"

text \<open>
  The virtual method \<^verbatim>\<open>isEnabled(state)\<close>, by class. \<^verbatim>\<open>StartAction\<close> overrides it
  without a parameter and reads the state of the service; \<^verbatim>\<open>RunAction\<close> inherits that.
  \<^verbatim>\<open>ToggleBreakpointsActivatedAction\<close> and \<^verbatim>\<open>AddFunctionBreakpointAction\<close> do not call
  the inherited predicate. Classes without an override use the default.
\<close>

fun isEnabled :: "action_class \<Rightarrow> DebugService \<Rightarrow> State \<Rightarrow> bool" where
  "isEnabled StartAction ds s = StartAction_isEnabled ds"
| "isEnabled RunAction ds s = StartAction_isEnabled ds"
| "isEnabled RemoveAllBreakpointsAction ds s =
     (AbstractDebugAction_isEnabled s
      \<and> (length (getBreakpoints ds) > 0 \<or> length (getFunctionBreakpoints ds) > 0))"
| "isEnabled EnableAllBreakpointsAction ds s =
     (AbstractDebugAction_isEnabled s \<and> some (\<lambda>en. \<not> en) (allEnablements ds))"
| "isEnabled DisableAllBreakpointsAction ds s =
     (AbstractDebugAction_isEnabled s \<and> some (\<lambda>en. en) (allEnablements ds))"
| "isEnabled ToggleBreakpointsActivatedAction ds s =
     (length (getFunctionBreakpoints ds) + length (getBreakpoints ds) > 0)"
| "isEnabled ReapplyBreakpointsAction ds s =
     (AbstractDebugAction_isEnabled s \<and> (s = Running \<or> s = Stopped)
      \<and> length (getFunctionBreakpoints ds) + length (getBreakpoints ds)
          + length (getExceptionBreakpoints ds) > 0)"
| "isEnabled AddFunctionBreakpointAction ds s =
     (getSelectedFunctionBreakpoint ds = None
      \<and> every (\<lambda>fbp. truthy (fbp_name fbp)) (getFunctionBreakpoints ds))"
| "isEnabled AddWatchExpressionAction ds s =
     (AbstractDebugAction_isEnabled s
      \<and> every (\<lambda>we. truthy (we_name we)) (getWatchExpressions ds))"
| "isEnabled RemoveAllWatchExpressionsAction ds s =
     (AbstractDebugAction_isEnabled s \<and> length (getWatchExpressions ds) > 0)"
| "isEnabled ConfigureAction ds s = AbstractDebugAction_isEnabled s"
| "isEnabled SelectAndStartAction ds s = AbstractDebugAction_isEnabled s"
| "isEnabled RemoveBreakpointAction ds s = AbstractDebugAction_isEnabled s"
| "isEnabled EditWatchExpressionAction ds s = AbstractDebugAction_isEnabled s"
| "isEnabled RemoveWatchExpressionAction ds s = AbstractDebugAction_isEnabled s"
| "isEnabled FocusSessionAction ds s = AbstractDebugAction_isEnabled s"

section \<open>Notification streams\<close>

text \<open>
  The event emitters of the debug service, the workspace service and the panel service,
  and \<^verbatim>\<open>lifecycle.dispose\<close>, are not part of the source under study. The spec describes
  them as notification streams to which an action registers subscriptions, each
  subscription an acquired resource that disposal releases, the list of them drained and
  cleared on dispose. A subscription is a listener entry with a fresh number; the number
  is the disposable the subscribing call returns, and disposing it removes the entry.
  The entries kept here are the ones registered by the action under study.
\<close>

text \<open>
  Modelled from the spec: the notification streams the actions consume, one per accessor
  named in the source (the declarations of the services are missing).
\<close>

datatype emitter =
    onDidChangeState
  | onDidChangeBreakpoints
  | onDidChangeWatchExpressions
  | onDidNewSession
  | onDidEndSession
  | onDidChangeWorkbenchState
  | onDidSelectConfiguration
  | onDidPanelOpen

text \<open>
  Modelled from the spec: the state of the streams (the emitter class is missing), as the
  listeners registered on them in the order of registration, each with the number of its
  subscription, and the next number to hand out.
\<close>

record 'cb emitters =
  listeners :: "(nat \<times> emitter \<times> 'cb) list"
  next_id :: nat

text \<open>
  Modelled from the spec: subscribing to a stream (the call \<^verbatim>\<open>stream(callback)\<close> of the
  missing emitter) registers the listener and returns its disposable.
\<close>

definition subscribe :: "emitter \<Rightarrow> 'cb \<Rightarrow> 'cb emitters \<Rightarrow> nat \<times> 'cb emitters" where
  "subscribe e cb em =
     (next_id em,
      em\<lparr>listeners := listeners em @ [(next_id em, e, cb)], next_id := Suc (next_id em)\<rparr>)"

text \<open>
  Modelled from the spec: disposing a subscription (the \<^verbatim>\<open>dispose\<close> of the disposable the
  missing emitter returned) releases it, so that its listener is no longer called.
  Disposing it again finds nothing to remove.
\<close>

definition dispose_subscription :: "nat \<Rightarrow> 'cb emitters \<Rightarrow> 'cb emitters" where
  "dispose_subscription d em =
     em\<lparr>listeners := filter (\<lambda>(i, e, cb). i \<noteq> d) (listeners em)\<rparr>"

text \<open>
  Modelled from the spec: \<^verbatim>\<open>lifecycle.dispose(array)\<close>, which is missing, drains the list:
  it disposes every element and returns the empty array.
\<close>

definition lifecycle_dispose :: "nat list \<Rightarrow> 'cb emitters \<Rightarrow> nat list \<times> 'cb emitters" where
  "lifecycle_dispose disposables em = ([], fold dispose_subscription disposables em)"

text \<open>
  Modelled from the spec: firing a stream (the \<^verbatim>\<open>fire\<close> of the missing emitter) calls, in
  the order of registration and within the dispatch, every listener registered on it.
  How a callback acts on the receiver is a parameter; a callback that throws ends the
  dispatch with its error.
\<close>

fun fire_listeners ::
  "('cb \<Rightarrow> 'p \<Rightarrow> 'a \<Rightarrow> error + 'a) \<Rightarrow> (nat \<times> emitter \<times> 'cb) list \<Rightarrow> emitter \<Rightarrow> 'p \<Rightarrow> 'a
     \<Rightarrow> error + 'a" where
  "fire_listeners call [] e payload a = Inr a"
| "fire_listeners call ((i, e', cb) # ls) e payload a =
     (if e' = e
      then (case call cb payload a of
              Inl err \<Rightarrow> Inl err
            | Inr a' \<Rightarrow> fire_listeners call ls e payload a')
      else fire_listeners call ls e payload a)"

section \<open>AbstractDebugAction and its subclasses\<close>

text \<open>
  Modelled from the spec: the base class \<^verbatim>\<open>Action\<close> is not part of the source under study.
  The spec gives an action an id, a label, a tooltip and an enabled flag; the source also
  assigns its \<^verbatim>\<open>class\<close>. Its constructor stores the arguments it is given, with enabled
  true when the argument is left out. \<^verbatim>\<open>AbstractDebugAction\<close> computes its tooltip from the
  keybinding of the action on every read; that getter is not modelled.
\<close>

record Action =
  action_id :: string
  label :: string
  cssClass :: string
  enabled :: bool
  tooltip :: string

text \<open>
  Modelled from the spec: \<^verbatim>\<open>Action.dispose\<close>, which is missing, never throws and holds none
  of the subscriptions a subclass registers; the fields kept here are left as they are.
\<close>

definition Action_dispose :: "'m Action_scheme \<Rightarrow> 'm Action_scheme" where
  "Action_dispose a = a"

record DebugAction = Action +
  cls :: action_class
  toDispose :: "nat list"
  weight :: "nat option"

text \<open>The four closures the constructors register as listeners.\<close>

datatype callback =
    cb_updateEnablement_state
  | cb_updateEnablement
  | cb_updateClass
  | cb_updateLabel_updateEnablement

definition updateLabel :: "string \<Rightarrow> DebugAction \<Rightarrow> DebugAction" where
  "updateLabel newLabel a = a\<lparr>label := newLabel\<rparr>"

text \<open>
  \<^verbatim>\<open>updateEnablement(state = this.debugService.state)\<close>: an argument that is left out, or
  undefined, takes the state of the service.
\<close>

definition updateEnablement :: "DebugService \<Rightarrow> State option \<Rightarrow> DebugAction \<Rightarrow> DebugAction" where
  "updateEnablement ds arg a =
     (let s = (case arg of None \<Rightarrow> state ds | Some s' \<Rightarrow> s')
      in a\<lparr>enabled := isEnabled (cls a) ds s\<rparr>)"

text \<open>
  \<^verbatim>\<open>reduce\<close> without an initial value throws a TypeError on the empty array and otherwise
  folds from the first element.
\<close>

fun reduce :: "('a \<Rightarrow> 'a \<Rightarrow> 'a) \<Rightarrow> 'a list \<Rightarrow> error + 'a" where
  "reduce f [] = Inl TypeError"
| "reduce f (x # xs) = Inr (foldl f x xs)"

text \<open>\<^verbatim>\<open>ConfigureAction.updateClass\<close>.\<close>

definition updateClass :: "DebugService \<Rightarrow> DebugAction \<Rightarrow> error + DebugAction" where
  "updateClass ds a =
     (case reduce (\<lambda>sum current. sum + current)
             (map (\<lambda>l. length (getConfigurationNames l)) (getLaunches ds)) of
        Inl err \<Rightarrow> Inl err
      | Inr configurationCount \<Rightarrow>
          Inr (a\<lparr>cssClass := (if configurationCount > 0 then ''debug-action configure''
                                else ''debug-action configure notification'')\<rparr>))"

definition ACTIVATE_LABEL :: string where
  "ACTIVATE_LABEL = ''Activate Breakpoints''"

definition DEACTIVATE_LABEL :: string where
  "DEACTIVATE_LABEL = ''Deactivate Breakpoints''"

definition toggleLabel :: "DebugService \<Rightarrow> string" where
  "toggleLabel ds = (if areBreakpointsActivated ds then DEACTIVATE_LABEL else ACTIVATE_LABEL)"

text \<open>\<^verbatim>\<open>this.toDispose.push(stream(callback))\<close>.\<close>

definition push ::
  "emitter \<Rightarrow> callback \<Rightarrow> DebugAction \<times> callback emitters \<Rightarrow> DebugAction \<times> callback emitters" where
  "push e cb x =
     (case x of (a, em) \<Rightarrow>
        (case subscribe e cb em of (d, em') \<Rightarrow> (a\<lparr>toDispose := toDispose a @ [d]\<rparr>, em')))"

text \<open>
  The constructor of \<^verbatim>\<open>AbstractDebugAction\<close>: the base constructor with enabled false,
  the empty disposable list, the subscription to state changes, the label, and one
  evaluation of the enablement with the current state.
\<close>

definition AbstractDebugAction_new ::
  "action_class \<Rightarrow> string \<Rightarrow> string \<Rightarrow> string \<Rightarrow> nat option \<Rightarrow> DebugService \<Rightarrow> callback emitters
     \<Rightarrow> DebugAction \<times> callback emitters" where
  "AbstractDebugAction_new c i l css w ds em =
     (case push onDidChangeState cb_updateEnablement_state
             (\<lparr>action_id = i, label = l, cssClass = css, enabled = False, tooltip = [],
               cls = c, toDispose = [], weight = w\<rparr>, em) of
        (a, em') \<Rightarrow> (updateEnablement ds None (updateLabel l a), em'))"

text \<open>
  The constructors of the subclasses: the inherited constructor first, then the
  subscriptions of the class. \<^verbatim>\<open>RunAction\<close> inherits the constructor of \<^verbatim>\<open>StartAction\<close>.
  The constructor of \<^verbatim>\<open>ConfigureAction\<close> ends with \<^verbatim>\<open>updateClass\<close>, which can throw.
\<close>

definition StartAction_new ::
  "action_class \<Rightarrow> string \<Rightarrow> string \<Rightarrow> DebugService \<Rightarrow> callback emitters
     \<Rightarrow> DebugAction \<times> callback emitters" where
  "StartAction_new c i l ds em =
     push onDidChangeWorkbenchState cb_updateEnablement
       (push onDidEndSession cb_updateEnablement
         (push onDidNewSession cb_updateEnablement
           (push onDidSelectConfiguration cb_updateEnablement
             (AbstractDebugAction_new c i l ''debug-action start'' None ds em))))"

fun construct ::
  "action_class \<Rightarrow> string \<Rightarrow> string \<Rightarrow> DebugService \<Rightarrow> callback emitters
     \<Rightarrow> error + DebugAction \<times> callback emitters" where
  "construct ConfigureAction i l ds em =
     (case push onDidSelectConfiguration cb_updateClass
             (AbstractDebugAction_new ConfigureAction i l ''debug-action configure'' None ds em) of
        (a, em') \<Rightarrow>
          (case updateClass ds a of Inl err \<Rightarrow> Inl err | Inr a' \<Rightarrow> Inr (a', em')))"
| "construct StartAction i l ds em = Inr (StartAction_new StartAction i l ds em)"
| "construct RunAction i l ds em = Inr (StartAction_new RunAction i l ds em)"
| "construct SelectAndStartAction i l ds em =
     Inr (AbstractDebugAction_new SelectAndStartAction i l [] None ds em)"
| "construct RemoveBreakpointAction i l ds em =
     Inr (AbstractDebugAction_new RemoveBreakpointAction i l ''debug-action remove'' None ds em)"
| "construct RemoveAllBreakpointsAction i l ds em =
     Inr (push onDidChangeBreakpoints cb_updateEnablement
           (AbstractDebugAction_new RemoveAllBreakpointsAction i l ''debug-action remove-all''
              None ds em))"
| "construct EnableAllBreakpointsAction i l ds em =
     Inr (push onDidChangeBreakpoints cb_updateEnablement
           (AbstractDebugAction_new EnableAllBreakpointsAction i l
              ''debug-action enable-all-breakpoints'' None ds em))"
| "construct DisableAllBreakpointsAction i l ds em =
     Inr (push onDidChangeBreakpoints cb_updateEnablement
           (AbstractDebugAction_new DisableAllBreakpointsAction i l
              ''debug-action disable-all-breakpoints'' None ds em))"
| "construct ToggleBreakpointsActivatedAction i l ds em =
     (case AbstractDebugAction_new ToggleBreakpointsActivatedAction i l
             ''debug-action breakpoints-activate'' None ds em of
        (a, em') \<Rightarrow>
          Inr (push onDidChangeBreakpoints cb_updateLabel_updateEnablement
                (updateLabel (toggleLabel ds) a, em')))"
| "construct ReapplyBreakpointsAction i l ds em =
     Inr (push onDidChangeBreakpoints cb_updateEnablement
           (AbstractDebugAction_new ReapplyBreakpointsAction i l [] None ds em))"
| "construct AddFunctionBreakpointAction i l ds em =
     Inr (push onDidChangeBreakpoints cb_updateEnablement
           (AbstractDebugAction_new AddFunctionBreakpointAction i l
              ''debug-action add-function-breakpoint'' None ds em))"
| "construct AddWatchExpressionAction i l ds em =
     Inr (push onDidChangeWatchExpressions cb_updateEnablement
           (AbstractDebugAction_new AddWatchExpressionAction i l
              ''debug-action add-watch-expression'' None ds em))"
| "construct EditWatchExpressionAction i l ds em =
     Inr (AbstractDebugAction_new EditWatchExpressionAction i l [] None ds em)"
| "construct RemoveWatchExpressionAction i l ds em =
     Inr (AbstractDebugAction_new RemoveWatchExpressionAction i l [] None ds em)"
| "construct RemoveAllWatchExpressionsAction i l ds em =
     Inr (push onDidChangeWatchExpressions cb_updateEnablement
           (AbstractDebugAction_new RemoveAllWatchExpressionsAction i l
              ''debug-action remove-all'' None ds em))"
| "construct FocusSessionAction i l ds em =
     Inr (AbstractDebugAction_new FocusSessionAction i l [] (Some 100) ds em)"

text \<open>
  What each registered closure does when its stream fires. The payload of a state change
  is the state; the other closures take no argument.
\<close>

fun call :: "DebugService \<Rightarrow> callback \<Rightarrow> State option \<Rightarrow> DebugAction \<Rightarrow> error + DebugAction" where
  "call ds cb_updateEnablement_state payload a = Inr (updateEnablement ds payload a)"
| "call ds cb_updateEnablement payload a = Inr (updateEnablement ds None a)"
| "call ds cb_updateClass payload a = updateClass ds a"
| "call ds cb_updateLabel_updateEnablement payload a =
     Inr (updateEnablement ds None (updateLabel (toggleLabel ds) a))"

text \<open>
  One notification: the stream, its payload, and the debug service as it is when the
  notification is dispatched.
\<close>

definition fire ::
  "emitter \<Rightarrow> State option \<Rightarrow> DebugService \<Rightarrow> callback emitters \<Rightarrow> DebugAction
     \<Rightarrow> error + DebugAction" where
  "fire e payload ds em a = fire_listeners (call ds) (listeners em) e payload a"

text \<open>A sequence of notifications, dispatched one after the other.\<close>

fun fire_all ::
  "(emitter \<times> State option \<times> DebugService) list \<Rightarrow> callback emitters \<Rightarrow> DebugAction
     \<Rightarrow> error + DebugAction" where
  "fire_all [] em a = Inr a"
| "fire_all ((e, payload, ds) # rest) em a =
     (case fire e payload ds em a of
        Inl err \<Rightarrow> Inl err
      | Inr a' \<Rightarrow> fire_all rest em a')"

text \<open>
  The action holds a subscription on a stream when a listener of its own is registered
  there.
\<close>

definition subscribed :: "'cb emitters \<Rightarrow> emitter \<Rightarrow> bool" where
  "subscribed em e = some (\<lambda>(i, e', cb). e' = e) (listeners em)"

text \<open>\<^verbatim>\<open>AbstractDebugAction.dispose\<close>.\<close>

definition dispose :: "DebugAction \<times> callback emitters \<Rightarrow> DebugAction \<times> callback emitters" where
  "dispose x =
     (case x of (a, em) \<Rightarrow>
        (case lifecycle_dispose (toDispose (Action_dispose a)) em of
           (rest, em') \<Rightarrow> ((Action_dispose a)\<lparr>toDispose := rest\<rparr>, em')))"

section \<open>Runs that change the breakpoint collections\<close>

text \<open>
  The operations \<^verbatim>\<open>removeBreakpoints\<close>, \<^verbatim>\<open>removeFunctionBreakpoints\<close> and
  \<^verbatim>\<open>addFunctionBreakpoint\<close> of the debug service are not part of the source under study.
  The spec gives three disjoint collections (line, function and exception breakpoints)
  and lets a run perform one domain operation of add or remove. A remove without an id
  removes the whole collection it is named after, one with an id removes the members
  with that id; adding a function breakpoint without a name appends a breakpoint whose
  name is empty; renaming sets the name of the function breakpoints with the given id.
  The selection of the view model is left as it is.
\<close>

text \<open>
  Modelled from the spec: \<^verbatim>\<open>debugService.removeBreakpoints(id?)\<close>, which is missing, acts on
  the line breakpoints only.
\<close>

definition removeBreakpoints :: "string option \<Rightarrow> DebugService \<Rightarrow> DebugService" where
  "removeBreakpoints arg ds =
     ds\<lparr>getBreakpoints :=
          filter (\<lambda>bp. \<not> (case arg of None \<Rightarrow> True | Some i \<Rightarrow> bp_id bp = i))
            (getBreakpoints ds)\<rparr>"

text \<open>
  Modelled from the spec: \<^verbatim>\<open>debugService.removeFunctionBreakpoints(id?)\<close>, which is
  missing, acts on the function breakpoints only.
\<close>

definition removeFunctionBreakpoints :: "string option \<Rightarrow> DebugService \<Rightarrow> DebugService" where
  "removeFunctionBreakpoints arg ds =
     ds\<lparr>getFunctionBreakpoints :=
          filter (\<lambda>fbp. \<not> (case arg of None \<Rightarrow> True | Some i \<Rightarrow> fbp_id fbp = i))
            (getFunctionBreakpoints ds)\<rparr>"

text \<open>
  Modelled from the spec: \<^verbatim>\<open>debugService.addFunctionBreakpoint()\<close>, which is missing, adds
  a function breakpoint without a name; its id is a parameter.
\<close>

definition addFunctionBreakpoint :: "string \<Rightarrow> DebugService \<Rightarrow> DebugService" where
  "addFunctionBreakpoint fresh ds =
     ds\<lparr>getFunctionBreakpoints :=
          getFunctionBreakpoints ds @ [\<lparr>fbp_id = fresh, fbp_enabled = True, fbp_name = []\<rparr>]\<rparr>"

text \<open>
  Modelled from the spec: naming a function breakpoint (\<^verbatim>\<open>renameFunctionBreakpoint\<close> of the
  missing debug service).
\<close>

definition renameFunctionBreakpoint :: "string \<Rightarrow> string \<Rightarrow> DebugService \<Rightarrow> DebugService" where
  "renameFunctionBreakpoint i newName ds =
     ds\<lparr>getFunctionBreakpoints :=
          map (\<lambda>fbp. if fbp_id fbp = i then fbp\<lparr>fbp_name := newName\<rparr> else fbp)
            (getFunctionBreakpoints ds)\<rparr>"

text \<open>
  \<^verbatim>\<open>RemoveAllBreakpointsAction.run\<close>: both removals, without an id, joined by
  \<^verbatim>\<open>Promise.all\<close>.
\<close>

definition RemoveAllBreakpointsAction_run :: "DebugService \<Rightarrow> unit list promise \<times> DebugService" where
  "RemoveAllBreakpointsAction_run ds =
     (Resolved [(), ()], removeFunctionBreakpoints None (removeBreakpoints None ds))"

text \<open>\<^verbatim>\<open>AddFunctionBreakpointAction.run\<close>; the id of the new breakpoint is a parameter.\<close>

definition AddFunctionBreakpointAction_run :: "string \<Rightarrow> DebugService \<Rightarrow> unit promise \<times> DebugService" where
  "AddFunctionBreakpointAction_run fresh ds = (Resolved (), addFunctionBreakpoint fresh ds)"

section \<open>ToggleReplAction\<close>

text \<open>
  \<^verbatim>\<open>ToggleReplAction\<close> extends \<^verbatim>\<open>TogglePanelAction\<close>, which is not part of the source under
  study; of its constructor only the fields of \<^verbatim>\<open>Action\<close> are kept. The class has a
  disposable list of its own, one listener on the opening of a panel, and a
  \<^verbatim>\<open>dispose\<close> written as the one of \<^verbatim>\<open>AbstractDebugAction\<close>.
\<close>

record ToggleReplAction = Action +
  repl_toDispose :: "nat list"

datatype repl_callback = cb_panelOpen

text \<open>
  Modelled from the spec: the constant \<^verbatim>\<open>REPL_ID\<close> is imported from a missing file; it is
  the id of the panel of the debug console.
\<close>

definition REPL_ID :: string where
  "REPL_ID = ''workbench.panel.repl''"

definition ToggleReplAction_LABEL :: string where
  "ToggleReplAction_LABEL = ''Debug Console''"

definition registerListeners ::
  "ToggleReplAction \<times> repl_callback emitters \<Rightarrow> ToggleReplAction \<times> repl_callback emitters" where
  "registerListeners x =
     (case x of (a, em) \<Rightarrow>
        (case subscribe onDidPanelOpen cb_panelOpen em of
           (d, em') \<Rightarrow> (a\<lparr>repl_toDispose := repl_toDispose a @ [d]\<rparr>, em')))"

definition ToggleReplAction_new ::
  "string \<Rightarrow> string \<Rightarrow> repl_callback emitters \<Rightarrow> ToggleReplAction \<times> repl_callback emitters" where
  "ToggleReplAction_new i l em =
     registerListeners
       (\<lparr>action_id = i, label = l, cssClass = ''debug-action toggle-repl'', enabled = True,
         tooltip = [], repl_toDispose = []\<rparr>, em)"

fun repl_call :: "repl_callback \<Rightarrow> string \<Rightarrow> ToggleReplAction \<Rightarrow> error + ToggleReplAction" where
  "repl_call cb_panelOpen panelId a =
     (if panelId = REPL_ID
      then Inr (a\<lparr>cssClass := ''debug-action toggle-repl'', tooltip := ToggleReplAction_LABEL\<rparr>)
      else Inr a)"

definition repl_fire ::
  "emitter \<Rightarrow> string \<Rightarrow> repl_callback emitters \<Rightarrow> ToggleReplAction \<Rightarrow> error + ToggleReplAction" where
  "repl_fire e panelId em a = fire_listeners repl_call (listeners em) e panelId a"

definition ToggleReplAction_dispose ::
  "ToggleReplAction \<times> repl_callback emitters \<Rightarrow> ToggleReplAction \<times> repl_callback emitters" where
  "ToggleReplAction_dispose x =
     (case x of (a, em) \<Rightarrow>
        (case lifecycle_dispose (repl_toDispose (Action_dispose a)) em of
           (rest, em') \<Rightarrow> ((Action_dispose a)\<lparr>repl_toDispose := rest\<rparr>, em')))"

section \<open>CopyValueAction\<close>

text \<open>
  The value handed to the action is untyped in the source: a string, a \<^verbatim>\<open>Variable\<close> of
  the debug model, or anything else. Of a variable the action reads \<^verbatim>\<open>value\<close> and
  \<^verbatim>\<open>evaluateName\<close>, which may be undefined.
\<close>

record Variable =
  var_value :: string
  evaluateName :: "string option"

datatype any = StringValue string | VariableValue Variable | OtherValue

record CopyValueAction = Action +
  cv_value :: any
  cv_context :: string

text \<open>\<^verbatim>\<open>!!x\<close> on a string that may be undefined.\<close>

definition truthy_opt :: "string option \<Rightarrow> bool" where
  "truthy_opt x = (case x of None \<Rightarrow> False | Some s \<Rightarrow> truthy s)"

text \<open>
  The constructor: the base constructor, then the assignment of \<^verbatim>\<open>_enabled\<close>. It is
  handed the notification streams and returns them, so that a subscription would show.
\<close>

definition CopyValueAction_new ::
  "string \<Rightarrow> string \<Rightarrow> any \<Rightarrow> string \<Rightarrow> 'cb emitters \<Rightarrow> CopyValueAction \<times> 'cb emitters" where
  "CopyValueAction_new i l v ctx em =
     (\<lparr>action_id = i, label = l, cssClass = ''debug-action copy-value'', enabled = True,
       tooltip = [], cv_value = v, cv_context = ctx\<rparr>
        \<lparr>enabled := (case v of
                       StringValue s \<Rightarrow> True
                     | VariableValue var \<Rightarrow> truthy_opt (evaluateName var)
                     | OtherValue \<Rightarrow> False)\<rparr>,
      em)"

text \<open>
  What \<^verbatim>\<open>run\<close> reads and writes: the focused stack frame (its frame id) and the focused
  session of the view model, the session's \<^verbatim>\<open>evaluate\<close> (a parameter: it answers with
  the \<^verbatim>\<open>body.result\<close> of the response or rejects), the text held by the clipboard
  service, and the evaluations requested so far.
\<close>

record Session =
  evaluate :: "string \<Rightarrow> nat \<Rightarrow> string \<Rightarrow> string promise"

record CopyEnv =
  focusedStackFrame :: "nat option"
  focusedSession :: "Session option"
  clipboardText :: any
  evaluations :: "(string \<times> nat \<times> string) list"

definition clipboardService_writeText :: "any \<Rightarrow> CopyEnv \<Rightarrow> unit \<times> CopyEnv" where
  "clipboardService_writeText v env = ((), env\<lparr>clipboardText := v\<rparr>)"

definition session_evaluate ::
  "Session \<Rightarrow> string \<Rightarrow> nat \<Rightarrow> string \<Rightarrow> CopyEnv \<Rightarrow> string promise \<times> CopyEnv" where
  "session_evaluate session expr frameId ctx env =
     (evaluate session expr frameId ctx,
      env\<lparr>evaluations := evaluations env @ [(expr, frameId, ctx)]\<rparr>)"

text \<open>
  \<^verbatim>\<open>p.then(onFulfilled, onRejected)\<close> for handlers that return normally: the handler for
  the way \<^verbatim>\<open>p\<close> settled runs, and the new promise resolves with what it returns.
\<close>

fun promise_then ::
  "'a promise \<Rightarrow> ('a \<Rightarrow> 's \<Rightarrow> 'b \<times> 's) \<Rightarrow> (error \<Rightarrow> 's \<Rightarrow> 'b \<times> 's) \<Rightarrow> 's \<Rightarrow> 'b promise \<times> 's" where
  "promise_then (Resolved v) onFulfilled onRejected s =
     (case onFulfilled v s of (r, s') \<Rightarrow> (Resolved r, s'))"
| "promise_then (Rejected err) onFulfilled onRejected s =
     (case onRejected err s of (r, s') \<Rightarrow> (Resolved r, s'))"

definition CopyValueAction_run :: "CopyValueAction \<Rightarrow> CopyEnv \<Rightarrow> unit promise \<times> CopyEnv" where
  "CopyValueAction_run a env =
     (let stackFrame = focusedStackFrame env;
          session = focusedSession env;
          otherwise = (case clipboardService_writeText (cv_value a) env of
                         (u, env') \<Rightarrow> (Resolved (), env'))
      in case cv_value a of
           VariableValue var \<Rightarrow>
             (case stackFrame of
                Some frameId \<Rightarrow>
                  (case session of
                     Some sess \<Rightarrow>
                       (case evaluateName var of
                          Some name \<Rightarrow>
                            if truthy name
                            then (case session_evaluate sess name frameId (cv_context a) env of
                                    (p, env') \<Rightarrow>
                                      promise_then p
                                        (\<lambda>result. clipboardService_writeText (StringValue result))
                                        (\<lambda>err. clipboardService_writeText
                                                  (StringValue (var_value var)))
                                        env')
                            else otherwise
                        | None \<Rightarrow> otherwise)
                   | None \<Rightarrow> otherwise)
              | None \<Rightarrow> otherwise)
         | StringValue s \<Rightarrow> otherwise
         | OtherValue \<Rightarrow> otherwise)"

section \<open>The clipboard bridge\<close>

text \<open>
  \<^verbatim>\<open>MainThreadCommands\<close> forwards to the \<^verbatim>\<open>clipboard\<close> of the desktop shell, a library
  outside the repository. The native clipboard is a parameter: a state of any type with
  the two operations the bridge calls.
\<close>

record 'c native_clipboard =
  native_readText :: "'c \<Rightarrow> string"
  native_writeText :: "string \<Rightarrow> 'c \<Rightarrow> 'c"

definition readText :: "'c native_clipboard \<Rightarrow> 'c \<Rightarrow> string promise \<times> 'c" where
  "readText clipboard c = (Resolved (native_readText clipboard c), c)"

definition writeText :: "'c native_clipboard \<Rightarrow> string \<Rightarrow> 'c \<Rightarrow> unit promise \<times> 'c" where
  "writeText clipboard v c = (Resolved (), native_writeText clipboard v c)"

definition MainThreadCommands_dispose :: "'c \<Rightarrow> 'c" where
  "MainThreadCommands_dispose c = c"

text \<open>A native clipboard that holds one text: writing replaces it, reading returns it.\<close>

definition text_cell :: "string native_clipboard" where
  "text_cell = \<lparr>native_readText = (\<lambda>c. c), native_writeText = (\<lambda>v c. v)\<rparr>"

section \<open>Sample inputs\<close>

text \<open>
  A debug service with nothing in it, and an action object as the base constructor
  leaves it; the closed examples below are built from them.
\<close>

definition service0 :: DebugService where
  "service0 =
     \<lparr>state = Inactive, getSessions = [], getLaunches = [], getBreakpoints = [],
      getFunctionBreakpoints = [], getExceptionBreakpoints = [], getWatchExpressions = [],
      getSelectedFunctionBreakpoint = None, areBreakpointsActivated = True\<rparr>"

definition action0 :: DebugAction where
  "action0 =
     \<lparr>action_id = ''a'', label = ''l'', cssClass = [], enabled = False, tooltip = [],
      cls = AddWatchExpressionAction, toDispose = [], weight = None\<rparr>"

definition no_listeners :: "'cb emitters" where
  "no_listeners = \<lparr>listeners = [], next_id = 0\<rparr>"

text \<open>
  A service with one line breakpoint, and the Remove-all-breakpoints action with its
  notification streams as its constructor leaves them on the empty service.
\<close>

definition service1 :: DebugService where
  "service1 = service0\<lparr>getBreakpoints := [\<lparr>bp_id = ''b1'', bp_enabled = True\<rparr>]\<rparr>"

definition remove_all0 :: DebugAction where
  "remove_all0 =
     \<lparr>action_id = ''workbench.debug.viewlet.action.removeAllBreakpoints'',
      label = ''Remove All Breakpoints'', cssClass = ''debug-action remove-all'',
      enabled = False, tooltip = [], cls = RemoveAllBreakpointsAction, toDispose = [0, 1],
      weight = None\<rparr>"

definition remove_all_emitters :: "callback emitters" where
  "remove_all_emitters =
     \<lparr>listeners = [(0, onDidChangeState, cb_updateEnablement_state),
                   (1, onDidChangeBreakpoints, cb_updateEnablement)],
      next_id = 2\<rparr>"

text \<open>The action of the debug console and its stream after construction.\<close>

definition repl0 :: ToggleReplAction where
  "repl0 =
     \<lparr>action_id = ''workbench.debug.action.toggleRepl'', label = ''Debug Console'',
      cssClass = ''debug-action toggle-repl'', enabled = True, tooltip = [],
      repl_toDispose = [0]\<rparr>"

definition repl_emitters :: "repl_callback emitters" where
  "repl_emitters = \<lparr>listeners = [(0, onDidPanelOpen, cb_panelOpen)], next_id = 1\<rparr>"

text \<open>
  A session whose evaluation always fails, a view model focused on it, and a variable
  that can be evaluated.
\<close>

definition failing_session :: Session where
  "failing_session = \<lparr>evaluate = (\<lambda>expr frameId ctx. Rejected (EvaluateError ''not available''))\<rparr>"

definition env0 :: CopyEnv where
  "env0 = \<lparr>focusedStackFrame = Some 7, focusedSession = Some failing_session,
            clipboardText = StringValue ''old'', evaluations = []\<rparr>"

definition variable0 :: Variable where
  "variable0 = \<lparr>var_value = ''42'', evaluateName = Some ''x.y''\<rparr>"

section \<open>Facts about the array methods\<close>

lemma every_iff: "every p xs = (\<forall>x \<in> set xs. p x)"
  by (induction xs) auto

lemma some_iff: "some p xs = (\<exists>x \<in> set xs. p x)"
  by (induction xs) auto

lemma some_append: "some p (xs @ ys) = (some p xs \<or> some p ys)"
  by (induction xs) auto

section \<open>Callbacks, dispatch and construction\<close>

lemma updateEnablement_fields:
  "cls (updateEnablement ds arg a) = cls a"
  "toDispose (updateEnablement ds arg a) = toDispose a"
  "enabled (updateEnablement ds arg a)
     = isEnabled (cls a) ds (case arg of None \<Rightarrow> state ds | Some s \<Rightarrow> s)"
  by (simp_all add: updateEnablement_def)

lemma updateLabel_fields:
  "cls (updateLabel l a) = cls a"
  "toDispose (updateLabel l a) = toDispose a"
  "enabled (updateLabel l a) = enabled a"
  by (simp_all add: updateLabel_def)

lemma updateClass_fields:
  assumes "updateClass ds a = Inr a'"
  shows "cls a' = cls a" and "toDispose a' = toDispose a" and "enabled a' = enabled a"
  using assms by (auto simp: updateClass_def split: sum.splits)

lemma updateClass_total:
  "getLaunches ds \<noteq> [] \<Longrightarrow> \<exists>a'. updateClass ds a = Inr a'"
  by (cases "getLaunches ds") (simp_all add: updateClass_def)

lemma call_fields:
  assumes "call ds cb payload a = Inr a'"
  shows "cls a' = cls a" and "toDispose a' = toDispose a"
  using assms
  by (cases cb; auto simp: updateEnablement_fields updateLabel_fields dest: updateClass_fields)+

lemma call_enabled:
  assumes "call ds cb payload a = Inr a'"
  shows "cb = cb_updateClass \<Longrightarrow> enabled a' = enabled a"
    and "cb \<noteq> cb_updateClass \<Longrightarrow> payload = None \<or> payload = Some (state ds)
         \<Longrightarrow> enabled a' = isEnabled (cls a) ds (state ds)"
  using assms
  by (cases cb; auto simp: updateEnablement_fields updateLabel_fields dest: updateClass_fields)+

lemma fire_listeners_fields:
  "fire_listeners (call ds) ls e payload a = Inr a'
   \<Longrightarrow> cls a' = cls a \<and> toDispose a' = toDispose a"
proof (induction ls arbitrary: a)
  case Nil
  then show ?case by simp
next
  case (Cons x ls)
  obtain i e' cb where x: "x = (i, e', cb)" by (cases x)
  show ?case
  proof (cases "e' = e")
    case True
    with Cons.prems x obtain a1 where a1: "call ds cb payload a = Inr a1"
      and rest: "fire_listeners (call ds) ls e payload a1 = Inr a'"
      by (auto split: sum.splits)
    from Cons.IH [OF rest] call_fields [OF a1] show ?thesis by simp
  next
    case False
    with Cons.prems x have "fire_listeners (call ds) ls e payload a = Inr a'" by simp
    from Cons.IH [OF this] show ?thesis .
  qed
qed

lemma fire_listeners_enabled:
  "fire_listeners (call ds) ls e payload a = Inr a'
   \<Longrightarrow> payload = None \<or> payload = Some (state ds)
   \<Longrightarrow> (enabled a' = enabled a \<or> enabled a' = isEnabled (cls a) ds (state ds))
       \<and> ((\<exists>i cb. (i, e, cb) \<in> set ls \<and> cb \<noteq> cb_updateClass)
            \<longrightarrow> enabled a' = isEnabled (cls a) ds (state ds))"
proof (induction ls arbitrary: a)
  case Nil
  then show ?case by simp
next
  case (Cons x ls)
  obtain i e' cb where x: "x = (i, e', cb)" by (cases x)
  show ?case
  proof (cases "e' = e")
    case True
    with Cons.prems x obtain a1 where a1: "call ds cb payload a = Inr a1"
      and rest: "fire_listeners (call ds) ls e payload a1 = Inr a'"
      by (auto split: sum.splits)
    have c1: "cls a1 = cls a" using call_fields [OF a1] by simp
    from Cons.IH [OF rest Cons.prems(2)] c1
    have ih: "enabled a' = enabled a1 \<or> enabled a' = isEnabled (cls a) ds (state ds)"
      and ih2: "(\<exists>i cb. (i, e, cb) \<in> set ls \<and> cb \<noteq> cb_updateClass)
                 \<longrightarrow> enabled a' = isEnabled (cls a) ds (state ds)"
      by simp_all
    show ?thesis
    proof (cases "cb = cb_updateClass")
      case True
      with call_enabled(1) [OF a1] have "enabled a1 = enabled a" by simp
      with ih ih2 x True show ?thesis by auto
    next
      case False
      with call_enabled(2) [OF a1 _ Cons.prems(2)]
      have "enabled a1 = isEnabled (cls a) ds (state ds)" by simp
      with ih show ?thesis by auto
    qed
  next
    case False
    with Cons.prems x have "fire_listeners (call ds) ls e payload a = Inr a'" by simp
    from Cons.IH [OF this Cons.prems(2)] False x show ?thesis by auto
  qed
qed

lemma construct_facts:
  assumes "construct c i l ds em0 = Inr (a, em)" and "listeners em0 = []"
  shows "cls a = c"
    and "enabled a = isEnabled c ds (state ds)"
    and "fst ` set (listeners em) \<subseteq> set (toDispose a)"
    and "\<forall>(j, e, cb) \<in> set (listeners em). cb = cb_updateClass \<longrightarrow> c = ConfigureAction"
  using assms
  by (cases c;
      auto simp: AbstractDebugAction_new_def StartAction_new_def push_def subscribe_def
        updateEnablement_def updateLabel_def updateClass_def split: sum.splits)+

lemma call_writer:
  assumes "call ds cb payload a = Inr a'"
  shows "enabled a' = enabled a \<or> (\<exists>arg. enabled a' = enabled (updateEnablement ds arg a))"
proof (cases cb)
  case cb_updateEnablement_state
  with assms have "enabled a' = enabled (updateEnablement ds payload a)" by auto
  then show ?thesis by blast
next
  case cb_updateEnablement
  with assms have "enabled a' = enabled (updateEnablement ds None a)" by auto
  then show ?thesis by blast
next
  case cb_updateClass
  with assms have "enabled a' = enabled a" by (auto dest: updateClass_fields(3))
  then show ?thesis by blast
next
  case cb_updateLabel_updateEnablement
  with assms have "enabled a' = enabled (updateEnablement ds None a)"
    by (auto simp: updateEnablement_fields updateLabel_fields)
  then show ?thesis by blast
qed

lemma fire_listeners_writer:
  "fire_listeners (call ds) ls e payload a = Inr a'
   \<Longrightarrow> enabled a' = enabled a \<or> (\<exists>s. enabled a' = isEnabled (cls a) ds s)"
proof (induction ls arbitrary: a)
  case Nil
  then show ?case by simp
next
  case (Cons x ls)
  obtain i e' cb where x: "x = (i, e', cb)" by (cases x)
  show ?case
  proof (cases "e' = e")
    case True
    with Cons.prems x obtain a1 where a1: "call ds cb payload a = Inr a1"
      and rest: "fire_listeners (call ds) ls e payload a1 = Inr a'"
      by (auto split: sum.splits)
    have c1: "cls a1 = cls a" using call_fields [OF a1] by simp
    have "enabled a1 = enabled a \<or> (\<exists>s. enabled a1 = isEnabled (cls a) ds s)"
      using a1
      by (cases cb; auto simp: updateEnablement_fields updateLabel_fields dest: updateClass_fields)
    with Cons.IH [OF rest] c1 show ?thesis by auto
  next
    case False
    with Cons.prems x have "fire_listeners (call ds) ls e payload a = Inr a'" by simp
    from Cons.IH [OF this] show ?thesis .
  qed
qed

lemma fire_listeners_total:
  "(\<forall>(j, e', cb) \<in> set ls. cb = cb_updateClass \<longrightarrow> getLaunches ds \<noteq> [])
   \<Longrightarrow> \<exists>a'. fire_listeners (call ds) ls e payload a = Inr a'"
proof (induction ls arbitrary: a)
  case Nil
  then show ?case by simp
next
  case (Cons x ls)
  obtain i e' cb where x: "x = (i, e', cb)" by (cases x)
  from Cons.prems have rest: "\<forall>(j, e', cb) \<in> set ls. cb = cb_updateClass \<longrightarrow> getLaunches ds \<noteq> []"
    by simp
  have "\<exists>a1. call ds cb payload a = Inr a1"
  proof (cases cb)
    case cb_updateClass
    with Cons.prems x have "getLaunches ds \<noteq> []" by simp
    with cb_updateClass show ?thesis by (simp add: updateClass_total)
  qed simp_all
  then obtain a1 where a1: "call ds cb payload a = Inr a1" ..
  from Cons.IH [OF rest, of a1] Cons.IH [OF rest, of a] a1 x show ?case by auto
qed

lemma fire_all_fields:
  "fire_all ns em a = Inr a' \<Longrightarrow> cls a' = cls a \<and> toDispose a' = toDispose a"
proof (induction ns arbitrary: a)
  case Nil
  then show ?case by simp
next
  case (Cons n ns)
  obtain e payload ds where n: "n = (e, payload, ds)" by (cases n)
  with Cons.prems obtain a1 where a1: "fire e payload ds em a = Inr a1"
    and rest: "fire_all ns em a1 = Inr a'"
    by (auto split: sum.splits)
  from fire_listeners_fields [OF a1 [unfolded fire_def]] Cons.IH [OF rest] show ?case by simp
qed

lemma fire_all_keeps_true:
  "fire_all ns em a = Inr a' \<Longrightarrow> \<forall>ds s. isEnabled (cls a) ds s \<Longrightarrow> enabled a \<Longrightarrow> enabled a'"
proof (induction ns arbitrary: a)
  case Nil
  then show ?case by simp
next
  case (Cons n ns)
  obtain e payload ds where n: "n = (e, payload, ds)" by (cases n)
  with Cons.prems obtain a1 where a1: "fire e payload ds em a = Inr a1"
    and rest: "fire_all ns em a1 = Inr a'"
    by (auto split: sum.splits)
  have c1: "cls a1 = cls a" using fire_listeners_fields [OF a1 [unfolded fire_def]] by simp
  from fire_listeners_writer [OF a1 [unfolded fire_def]] Cons.prems(2,3)
  have "enabled a1" by auto
  with Cons.IH [OF rest] c1 Cons.prems(2) show ?case by simp
qed

lemma fire_all_snoc:
  "fire_all (ns @ [n]) em a = Inr a'
   \<Longrightarrow> \<exists>a1. fire_all ns em a = Inr a1 \<and> fire (fst n) (fst (snd n)) (snd (snd n)) em a1 = Inr a'"
proof (induction ns arbitrary: a)
  case Nil
  then show ?case by (cases n) (auto split: sum.splits)
next
  case (Cons m ns)
  obtain e payload ds where m: "m = (e, payload, ds)" by (cases m)
  with Cons.prems obtain a1 where a1: "fire e payload ds em a = Inr a1"
    and rest: "fire_all (ns @ [n]) em a1 = Inr a'"
    by (auto split: sum.splits)
  from Cons.IH [OF rest] a1 m show ?case by auto
qed

lemma fire_all_total:
  "(\<forall>(e, payload, ds) \<in> set ns.
      \<forall>(j, e', cb) \<in> set (listeners em). cb = cb_updateClass \<longrightarrow> getLaunches ds \<noteq> [])
   \<Longrightarrow> \<exists>a'. fire_all ns em a = Inr a'"
proof (induction ns arbitrary: a)
  case Nil
  then show ?case by simp
next
  case (Cons n ns)
  obtain e payload ds where n: "n = (e, payload, ds)" by (cases n)
  with Cons.prems
  have here: "\<forall>(j, e', cb) \<in> set (listeners em). cb = cb_updateClass \<longrightarrow> getLaunches ds \<noteq> []"
    by simp
  from fire_listeners_total [OF here, of e payload a]
  obtain a1 where a1: "fire e payload ds em a = Inr a1" by (auto simp: fire_def)
  from Cons.prems have "\<forall>(e, payload, ds) \<in> set ns.
      \<forall>(j, e', cb) \<in> set (listeners em). cb = cb_updateClass \<longrightarrow> getLaunches ds \<noteq> []"
    by simp
  from Cons.IH [OF this, of a1] a1 n show ?case by auto
qed

lemma isEnabled_ConfigureAction: "isEnabled ConfigureAction ds s"
  by (simp add: AbstractDebugAction_isEnabled_def)

lemma subscribed_iff: "subscribed em e = (\<exists>i cb. (i, e, cb) \<in> set (listeners em))"
  by (auto simp: subscribed_def some_iff)

lemma after_relevant_notification:
  assumes c: "construct c i l ds0 em0 = Inr (a0, em)" and e0: "listeners em0 = []"
    and f: "fire_all (ns @ [(e, payload, ds)]) em a0 = Inr a"
    and s: "subscribed em e"
    and p: "payload = None \<or> payload = Some (state ds)"
  shows "enabled a = isEnabled c ds (state ds)"
proof -
  from fire_all_snoc [OF f] obtain a1 where a1: "fire_all ns em a0 = Inr a1"
    and last: "fire_listeners (call ds) (listeners em) e payload a1 = Inr a"
    by (auto simp: fire_def)
  have c0: "cls a0 = c" using construct_facts(1) [OF c e0] .
  have c1: "cls a1 = c" using fire_all_fields [OF a1] c0 by simp
  from s obtain j cb where j: "(j, e, cb) \<in> set (listeners em)"
    by (auto simp: subscribed_iff)
  show ?thesis
  proof (cases "cb = cb_updateClass")
    case False
    with j fire_listeners_enabled [OF last p] c1 show ?thesis by auto
  next
    case True
    with j construct_facts(4) [OF c e0] have cc: "c = ConfigureAction" by auto
    have always: "\<forall>ds s. isEnabled (cls a0) ds s"
      using c0 cc by (simp add: AbstractDebugAction_isEnabled_def)
    have "enabled a0"
      using construct_facts(2) [OF c e0] cc by (simp add: AbstractDebugAction_isEnabled_def)
    from fire_all_keeps_true [OF f always this] have "enabled a" .
    with cc show ?thesis by (simp add: AbstractDebugAction_isEnabled_def)
  qed
qed

lemma construct_total:
  "c \<noteq> ConfigureAction \<or> getLaunches ds \<noteq> [] \<Longrightarrow> \<exists>a em. construct c i l ds em0 = Inr (a, em)"
proof (cases c)
  case ConfigureAction
  assume "c \<noteq> ConfigureAction \<or> getLaunches ds \<noteq> []"
  with ConfigureAction have "getLaunches ds \<noteq> []" by simp
  then obtain x xs where "getLaunches ds = x # xs" by (cases "getLaunches ds") auto
  with ConfigureAction show ?thesis
    by (simp add: updateClass_def split: prod.splits)
qed (auto split: prod.splits)

lemma listeners_fold_dispose:
  "listeners (fold dispose_subscription ids em)
     = filter (\<lambda>(j, e, cb). j \<notin> set ids) (listeners em)"
proof (induction ids arbitrary: em)
  case Nil
  then show ?case by simp
next
  case (Cons d ids)
  have one: "listeners (dispose_subscription d em) = filter (\<lambda>(j, e, cb). j \<noteq> d) (listeners em)"
    by (simp add: dispose_subscription_def)
  show ?case
    by (simp add: Cons.IH one case_prod_unfold conj_commute)
qed

lemma subscribed_push:
  "push e cb x = (a, em) \<Longrightarrow> subscribed em e' = (e' = e \<or> subscribed (snd x) e')"
  by (cases x) (auto simp: push_def subscribe_def subscribed_def some_append)

lemma subscribed_new:
  "AbstractDebugAction_new c i l css w ds emc = (a, em) \<Longrightarrow> subscribed em onDidChangeState"
  by (auto simp: AbstractDebugAction_new_def push_def subscribe_def subscribed_def some_append)

lemma subscribed_push_new:
  "push e cb (AbstractDebugAction_new c i l css w ds emc) = (a, em)
   \<Longrightarrow> subscribed em onDidChangeState \<and> subscribed em e"
  using subscribed_push [of e cb "AbstractDebugAction_new c i l css w ds emc" a em]
    subscribed_new [OF surjective_pairing, of c i l css w ds emc]
  by simp

lemma subscribed_StartAction_new:
  "StartAction_new c i l ds emc = (a, em)
   \<Longrightarrow> subscribed em onDidChangeState \<and> subscribed em onDidSelectConfiguration
       \<and> subscribed em onDidNewSession \<and> subscribed em onDidEndSession
       \<and> subscribed em onDidChangeWorkbenchState"
  by (auto simp: StartAction_new_def AbstractDebugAction_new_def push_def subscribe_def
        subscribed_def some_append)

lemma construct_subscriptions:
  assumes "construct c i l dsc emc = Inr (ac, em)"
  shows "subscribed em onDidChangeState
     \<and> (c \<in> {RemoveAllBreakpointsAction, EnableAllBreakpointsAction,
               DisableAllBreakpointsAction, ToggleBreakpointsActivatedAction,
               ReapplyBreakpointsAction, AddFunctionBreakpointAction}
          \<longrightarrow> subscribed em onDidChangeBreakpoints)
     \<and> (c \<in> {AddWatchExpressionAction, RemoveAllWatchExpressionsAction}
          \<longrightarrow> subscribed em onDidChangeWatchExpressions)
     \<and> (c \<in> {StartAction, RunAction}
          \<longrightarrow> subscribed em onDidSelectConfiguration \<and> subscribed em onDidNewSession
              \<and> subscribed em onDidEndSession \<and> subscribed em onDidChangeWorkbenchState)"
proof (cases c)
  case ConfigureAction
  with assms show ?thesis
    by (auto split: prod.splits sum.splits dest: subscribed_push_new)
next
  case ToggleBreakpointsActivatedAction
  with assms obtain a' em' where
    n: "AbstractDebugAction_new ToggleBreakpointsActivatedAction i l
          ''debug-action breakpoints-activate'' None dsc emc = (a', em')"
    and p: "push onDidChangeBreakpoints cb_updateLabel_updateEnablement
              (updateLabel (toggleLabel dsc) a', em') = (ac, em)"
    by (auto split: prod.splits)
  from subscribed_push [OF p] subscribed_new [OF n] ToggleBreakpointsActivatedAction
  show ?thesis by simp
qed (use assms in \<open>simp_all add: subscribed_StartAction_new subscribed_new subscribed_push_new\<close>)

lemma dispose_owned:
  assumes own: "fst ` set (listeners em) \<subseteq> set ids"
  shows "listeners (fold dispose_subscription ids em) = []"
proof -
  have "\<forall>x \<in> set (listeners em). fst x \<in> set ids"
    using own by auto
  then show ?thesis
    by (simp add: listeners_fold_dispose filter_empty_conv case_prod_unfold)
qed

lemma dispose_releases:
  assumes c: "construct c i l dsc emc = Inr (ac, em)" and e0: "listeners emc = []"
    and f: "fire_all ns em ac = Inr a" and d: "dispose (a, em) = (a1, em1)"
  shows "listeners em1 = [] \<and> toDispose a1 = [] \<and> enabled a1 = enabled a
         \<and> (\<forall>e payload ds. fire e payload ds em1 a1 = Inr a1)
         \<and> dispose (a1, em1) = (a1, em1)"
proof -
  have same: "toDispose a = toDispose ac" using fire_all_fields [OF f] by simp
  have own: "fst ` set (listeners em) \<subseteq> set (toDispose a)"
    using construct_facts(3) [OF c e0] same by simp
  from d have a1: "a1 = a\<lparr>toDispose := []\<rparr>"
    and em1: "em1 = fold dispose_subscription (toDispose a) em"
    by (simp_all add: dispose_def lifecycle_dispose_def Action_dispose_def)
  have none: "listeners em1 = []" using dispose_owned [OF own] em1 by simp
  have "dispose (a1, em1) = (a1, em1)"
    using a1 by (simp add: dispose_def lifecycle_dispose_def Action_dispose_def)
  with none a1 show ?thesis by (simp add: fire_def)
qed

lemma repl_dispose_releases:
  assumes n: "ToggleReplAction_new i l emc = (r, em)" and e0: "listeners emc = []"
    and d: "ToggleReplAction_dispose (r, em) = (r1, em1)"
  shows "listeners em1 = [] \<and> repl_toDispose r1 = [] \<and> enabled r1 = enabled r
         \<and> (\<forall>e panelId. repl_fire e panelId em1 r1 = Inr r1)
         \<and> ToggleReplAction_dispose (r1, em1) = (r1, em1)"
proof -
  from n e0 have own: "fst ` set (listeners em) \<subseteq> set (repl_toDispose r)"
    by (auto simp: ToggleReplAction_new_def registerListeners_def subscribe_def)
  from d have r1: "r1 = r\<lparr>repl_toDispose := []\<rparr>"
    and em1: "em1 = fold dispose_subscription (repl_toDispose r) em"
    by (simp_all add: ToggleReplAction_dispose_def lifecycle_dispose_def Action_dispose_def)
  have none: "listeners em1 = []" using dispose_owned [OF own] em1 by simp
  have "ToggleReplAction_dispose (r1, em1) = (r1, em1)"
    using r1 by (simp add: ToggleReplAction_dispose_def lifecycle_dispose_def Action_dispose_def)
  with none r1 show ?thesis by (simp add: repl_fire_def)
qed

section \<open>The enabled flag follows the predicate\<close>

text \<open>
  Claim C1. For every class built on \<^verbatim>\<open>AbstractDebugAction\<close>: the constructor returns
  (the one of \<^verbatim>\<open>ConfigureAction\<close> when there is a launch), and right after it, before
  any notification, the enabled flag is the predicate of the class on the state of the
  service. After any sequence of notifications that ends with one on a stream the action
  is subscribed to, the flag is the predicate on the service as it is at that
  notification; a state notification carries the state the service is in. The dispatch
  returns normally. Every class is subscribed to state changes, the classes whose
  predicate reads the breakpoints to breakpoint changes, those that read the watch
  expressions to their changes, and Start and Run to the selection of a configuration,
  the start and end of a session and the change of the workbench state.
  \<^verbatim>\<open>updateEnablement\<close> sets the flag to the predicate, and nothing else writes it: a
  callback leaves the flag as it was or as \<^verbatim>\<open>updateEnablement\<close> sets it, and
  \<^verbatim>\<open>updateLabel\<close> and \<^verbatim>\<open>dispose\<close> leave it alone.
\<close>

theorem enabled_equals_isEnabled:
  "(c \<noteq> ConfigureAction \<or> getLaunches dsc \<noteq> []
      \<longrightarrow> (\<exists>ac em. construct c i l dsc emc = Inr (ac, em)))
   \<and> (construct c i l dsc emc = Inr (ac, em) \<and> listeners emc = []
      \<longrightarrow> enabled ac = isEnabled c dsc (state dsc)
          \<and> (\<forall>ns e payload ds a.
                fire_all (ns @ [(e, payload, ds)]) em ac = Inr a \<and> subscribed em e
                  \<and> (payload = None \<or> payload = Some (state ds))
                \<longrightarrow> enabled a = isEnabled c ds (state ds))
          \<and> (\<forall>ns. (\<forall>(e, payload, ds) \<in> set ns. c = ConfigureAction \<longrightarrow> getLaunches ds \<noteq> [])
                \<longrightarrow> (\<exists>a. fire_all ns em ac = Inr a))
          \<and> subscribed em onDidChangeState
          \<and> (c \<in> {RemoveAllBreakpointsAction, EnableAllBreakpointsAction,
                    DisableAllBreakpointsAction, ToggleBreakpointsActivatedAction,
                    ReapplyBreakpointsAction, AddFunctionBreakpointAction}
               \<longrightarrow> subscribed em onDidChangeBreakpoints)
          \<and> (c \<in> {AddWatchExpressionAction, RemoveAllWatchExpressionsAction}
               \<longrightarrow> subscribed em onDidChangeWatchExpressions)
          \<and> (c \<in> {StartAction, RunAction}
               \<longrightarrow> subscribed em onDidSelectConfiguration \<and> subscribed em onDidNewSession
                   \<and> subscribed em onDidEndSession \<and> subscribed em onDidChangeWorkbenchState))
   \<and> (\<forall>ds arg a. enabled (updateEnablement ds arg a)
                    = isEnabled (cls a) ds (case arg of None \<Rightarrow> state ds | Some s \<Rightarrow> s))
   \<and> (\<forall>ds cb payload a a'.
         call ds cb payload a = Inr a'
         \<longrightarrow> enabled a' = enabled a \<or> (\<exists>arg. enabled a' = enabled (updateEnablement ds arg a)))
   \<and> (\<forall>newLabel a. enabled (updateLabel newLabel a) = enabled a)
   \<and> (\<forall>x. enabled (fst (dispose x)) = enabled (fst x))"
proof -
  have returns: "c \<noteq> ConfigureAction \<or> getLaunches dsc \<noteq> []
      \<longrightarrow> (\<exists>ac em. construct c i l dsc emc = Inr (ac, em))"
    using construct_total by blast
  have tracked: "construct c i l dsc emc = Inr (ac, em) \<and> listeners emc = []
      \<longrightarrow> enabled ac = isEnabled c dsc (state dsc)
          \<and> (\<forall>ns e payload ds a.
                fire_all (ns @ [(e, payload, ds)]) em ac = Inr a \<and> subscribed em e
                  \<and> (payload = None \<or> payload = Some (state ds))
                \<longrightarrow> enabled a = isEnabled c ds (state ds))
          \<and> (\<forall>ns. (\<forall>(e, payload, ds) \<in> set ns. c = ConfigureAction \<longrightarrow> getLaunches ds \<noteq> [])
                \<longrightarrow> (\<exists>a. fire_all ns em ac = Inr a))
          \<and> subscribed em onDidChangeState
          \<and> (c \<in> {RemoveAllBreakpointsAction, EnableAllBreakpointsAction,
                    DisableAllBreakpointsAction, ToggleBreakpointsActivatedAction,
                    ReapplyBreakpointsAction, AddFunctionBreakpointAction}
               \<longrightarrow> subscribed em onDidChangeBreakpoints)
          \<and> (c \<in> {AddWatchExpressionAction, RemoveAllWatchExpressionsAction}
               \<longrightarrow> subscribed em onDidChangeWatchExpressions)
          \<and> (c \<in> {StartAction, RunAction}
               \<longrightarrow> subscribed em onDidSelectConfiguration \<and> subscribed em onDidNewSession
                   \<and> subscribed em onDidEndSession \<and> subscribed em onDidChangeWorkbenchState)"
  proof
    assume "construct c i l dsc emc = Inr (ac, em) \<and> listeners emc = []"
    then have built: "construct c i l dsc emc = Inr (ac, em)" and fresh: "listeners emc = []"
      by simp_all
    have initial: "enabled ac = isEnabled c dsc (state dsc)"
      using construct_facts(2) [OF built fresh] .
    have later: "\<forall>ns e payload ds a.
        fire_all (ns @ [(e, payload, ds)]) em ac = Inr a \<and> subscribed em e
          \<and> (payload = None \<or> payload = Some (state ds))
        \<longrightarrow> enabled a = isEnabled c ds (state ds)"
      using after_relevant_notification [OF built fresh] by blast
    have dispatch: "\<forall>ns. (\<forall>(e, payload, ds) \<in> set ns. c = ConfigureAction \<longrightarrow> getLaunches ds \<noteq> [])
        \<longrightarrow> (\<exists>a. fire_all ns em ac = Inr a)"
    proof (intro allI impI)
      fix ns :: "(emitter \<times> State option \<times> DebugService) list"
      assume launches: "\<forall>(e, payload, ds) \<in> set ns. c = ConfigureAction \<longrightarrow> getLaunches ds \<noteq> []"
      have only: "\<forall>(j, e, cb) \<in> set (listeners em). cb = cb_updateClass \<longrightarrow> c = ConfigureAction"
        using construct_facts(4) [OF built fresh] .
      have "\<forall>(e, payload, ds) \<in> set ns.
              \<forall>(j, e', cb) \<in> set (listeners em). cb = cb_updateClass \<longrightarrow> getLaunches ds \<noteq> []"
        using launches only by fastforce
      then show "\<exists>a. fire_all ns em ac = Inr a"
        by (rule fire_all_total)
    qed
    show "enabled ac = isEnabled c dsc (state dsc)
          \<and> (\<forall>ns e payload ds a.
                fire_all (ns @ [(e, payload, ds)]) em ac = Inr a \<and> subscribed em e
                  \<and> (payload = None \<or> payload = Some (state ds))
                \<longrightarrow> enabled a = isEnabled c ds (state ds))
          \<and> (\<forall>ns. (\<forall>(e, payload, ds) \<in> set ns. c = ConfigureAction \<longrightarrow> getLaunches ds \<noteq> [])
                \<longrightarrow> (\<exists>a. fire_all ns em ac = Inr a))
          \<and> subscribed em onDidChangeState
          \<and> (c \<in> {RemoveAllBreakpointsAction, EnableAllBreakpointsAction,
                    DisableAllBreakpointsAction, ToggleBreakpointsActivatedAction,
                    ReapplyBreakpointsAction, AddFunctionBreakpointAction}
               \<longrightarrow> subscribed em onDidChangeBreakpoints)
          \<and> (c \<in> {AddWatchExpressionAction, RemoveAllWatchExpressionsAction}
               \<longrightarrow> subscribed em onDidChangeWatchExpressions)
          \<and> (c \<in> {StartAction, RunAction}
               \<longrightarrow> subscribed em onDidSelectConfiguration \<and> subscribed em onDidNewSession
                   \<and> subscribed em onDidEndSession \<and> subscribed em onDidChangeWorkbenchState)"
      by (rule conjI [OF initial conjI [OF later conjI [OF dispatch
            construct_subscriptions [OF built]]]])
  qed
  have sets: "\<forall>ds arg a. enabled (updateEnablement ds arg a)
                    = isEnabled (cls a) ds (case arg of None \<Rightarrow> state ds | Some s \<Rightarrow> s)"
    by (simp add: updateEnablement_fields(3))
  have callbacks: "\<forall>ds cb payload a a'.
         call ds cb payload a = Inr a'
         \<longrightarrow> enabled a' = enabled a \<or> (\<exists>arg. enabled a' = enabled (updateEnablement ds arg a))"
    using call_writer by blast
  have labels: "\<forall>newLabel a. enabled (updateLabel newLabel a) = enabled a"
    by (simp add: updateLabel_fields(3))
  have disposal: "\<forall>x. enabled (fst (dispose x)) = enabled (fst x)"
    by (simp add: dispose_def lifecycle_dispose_def Action_dispose_def split: prod.splits)
  show ?thesis
    by (rule conjI [OF returns conjI [OF tracked conjI [OF sets conjI [OF callbacks
          conjI [OF labels disposal]]]]])
qed

text \<open>
  The Remove-all-breakpoints action on the empty service: built disabled, and enabled
  by the notification that follows the first breakpoint.
\<close>

theorem enabled_equals_isEnabled_witness:
  "construct RemoveAllBreakpointsAction ''workbench.debug.viewlet.action.removeAllBreakpoints''
      ''Remove All Breakpoints'' service0 no_listeners = Inr (remove_all0, remove_all_emitters)
   \<and> \<not> enabled remove_all0
   \<and> \<not> isEnabled RemoveAllBreakpointsAction service0 (state service0)
   \<and> fire_all [(onDidChangeState, Some Running, service0\<lparr>state := Running\<rparr>),
               (onDidChangeBreakpoints, None, service1)] remove_all_emitters remove_all0
       = Inr (remove_all0\<lparr>enabled := True\<rparr>)
   \<and> isEnabled RemoveAllBreakpointsAction service1 (state service1)"
proof -
  have built: "construct RemoveAllBreakpointsAction
      ''workbench.debug.viewlet.action.removeAllBreakpoints''
      ''Remove All Breakpoints'' service0 no_listeners = Inr (remove_all0, remove_all_emitters)"
    by (simp add: AbstractDebugAction_new_def push_def subscribe_def updateEnablement_def
          updateLabel_def no_listeners_def remove_all0_def remove_all_emitters_def service0_def
          AbstractDebugAction_isEnabled_def)
  have empty: "listeners (no_listeners :: callback emitters) = []"
    by (simp add: no_listeners_def)
  have fired: "fire_all ([(onDidChangeState, Some Running, service0\<lparr>state := Running\<rparr>)]
                 @ [(onDidChangeBreakpoints, None, service1)]) remove_all_emitters remove_all0
       = Inr (remove_all0\<lparr>enabled := True\<rparr>)"
    by (simp add: fire_def remove_all_emitters_def remove_all0_def updateEnablement_def
          service0_def service1_def AbstractDebugAction_isEnabled_def)
  have sub: "subscribed remove_all_emitters onDidChangeBreakpoints"
    by (simp add: subscribed_def remove_all_emitters_def)
  note main = enabled_equals_isEnabled
      [where c = RemoveAllBreakpointsAction and dsc = service0
         and i = "''workbench.debug.viewlet.action.removeAllBreakpoints''"
         and l = "''Remove All Breakpoints''" and emc = no_listeners
         and ac = remove_all0 and em = remove_all_emitters,
       THEN conjunct2, THEN conjunct1, rule_format, OF conjI [OF built empty]]
  from main have first:
    "enabled remove_all0 = isEnabled RemoveAllBreakpointsAction service0 (state service0)"
    by (rule conjunct1)
  from main have later: "\<forall>ns e payload ds a.
      fire_all (ns @ [(e, payload, ds)]) remove_all_emitters remove_all0 = Inr a
        \<and> subscribed remove_all_emitters e \<and> (payload = None \<or> payload = Some (state ds))
      \<longrightarrow> enabled a = isEnabled RemoveAllBreakpointsAction ds (state ds)"
    by (rule conjunct1 [OF conjunct2])
  from later [rule_format, OF conjI [OF fired conjI [OF sub disjI1 [OF refl]]]]
  have now: "isEnabled RemoveAllBreakpointsAction service1 (state service1)"
    by simp
  have before: "\<not> enabled remove_all0" by (simp add: remove_all0_def)
  from built before first fired now show ?thesis by simp
qed

section \<open>The enablement predicates\<close>

text \<open>
  Claim C2. The predicate of the Start action is false whenever the state of the debug
  service is Initializing, whatever else holds; it is false when there is at least one
  session and every launch has no configuration name; in every other case it is true.
  The override takes no argument, so the state handed to \<^verbatim>\<open>isEnabled\<close> plays no part.
\<close>

theorem StartAction_isEnabled_cases:
  "(state ds = Initializing \<longrightarrow> \<not> isEnabled StartAction ds s)
   \<and> (getSessions ds \<noteq> [] \<and> (\<forall>l \<in> set (getLaunches ds). getConfigurationNames l = [])
        \<longrightarrow> \<not> isEnabled StartAction ds s)
   \<and> (state ds \<noteq> Initializing
        \<and> \<not> (getSessions ds \<noteq> [] \<and> (\<forall>l \<in> set (getLaunches ds). getConfigurationNames l = []))
        \<longrightarrow> isEnabled StartAction ds s)
   \<and> isEnabled StartAction ds s = StartAction_isEnabled ds"
  by (simp add: StartAction_isEnabled_def every_iff)

text \<open>
  The three cases on concrete services: Initializing; a session and one launch without
  configurations; a session and a launch with a configuration; and an Initializing
  argument that the override does not read.
\<close>

theorem StartAction_isEnabled_cases_witness:
  "state (service0\<lparr>state := Initializing\<rparr>) = Initializing
   \<and> \<not> isEnabled StartAction (service0\<lparr>state := Initializing\<rparr>) Running
   \<and> getSessions (service0\<lparr>getSessions := [''node''],
                            getLaunches := [\<lparr>getConfigurationNames = []\<rparr>]\<rparr>) \<noteq> []
   \<and> \<not> isEnabled StartAction
         (service0\<lparr>getSessions := [''node''], getLaunches := [\<lparr>getConfigurationNames = []\<rparr>]\<rparr>)
         Running
   \<and> isEnabled StartAction
         (service0\<lparr>getSessions := [''node''],
                    getLaunches := [\<lparr>getConfigurationNames = []\<rparr>,
                                    \<lparr>getConfigurationNames = [''Launch'']\<rparr>]\<rparr>)
         Running
   \<and> isEnabled StartAction service0 Initializing"
  using StartAction_isEnabled_cases [of "service0\<lparr>state := Initializing\<rparr>" Running]
    StartAction_isEnabled_cases
      [of "service0\<lparr>getSessions := [''node''], getLaunches := [\<lparr>getConfigurationNames = []\<rparr>]\<rparr>"
          Running]
    StartAction_isEnabled_cases
      [of "service0\<lparr>getSessions := [''node''],
                     getLaunches := [\<lparr>getConfigurationNames = []\<rparr>,
                                     \<lparr>getConfigurationNames = [''Launch'']\<rparr>]\<rparr>" Running]
    StartAction_isEnabled_cases [of service0 Initializing]
  by (simp add: service0_def)

text \<open>
  Claim C3. The predicate of the Add-function-breakpoint action is true exactly when no
  function breakpoint is selected for editing and every function breakpoint has a name
  that is not empty. After the run of the action has added a breakpoint without a name
  the predicate is false; if it was true before, it is true again once that breakpoint
  has been given a name that is not empty.
\<close>

theorem AddFunctionBreakpointAction_isEnabled_iff:
  "isEnabled AddFunctionBreakpointAction ds s
     = (getSelectedFunctionBreakpoint ds = None
        \<and> (\<forall>fbp \<in> set (getFunctionBreakpoints ds). fbp_name fbp \<noteq> []))
   \<and> \<not> isEnabled AddFunctionBreakpointAction (snd (AddFunctionBreakpointAction_run fresh ds)) s
   \<and> (isEnabled AddFunctionBreakpointAction ds s \<and> newName \<noteq> []
        \<longrightarrow> isEnabled AddFunctionBreakpointAction
              (renameFunctionBreakpoint fresh newName
                 (snd (AddFunctionBreakpointAction_run fresh ds))) s)"
  by (auto simp: every_iff truthy_def AddFunctionBreakpointAction_run_def
        addFunctionBreakpoint_def renameFunctionBreakpoint_def)

text \<open>
  On the empty service: enabled, disabled after the run, enabled again after the name
  is given.
\<close>

theorem AddFunctionBreakpointAction_isEnabled_iff_witness:
  "isEnabled AddFunctionBreakpointAction service0 Inactive
   \<and> \<not> isEnabled AddFunctionBreakpointAction
         (snd (AddFunctionBreakpointAction_run ''fb1'' service0)) Inactive
   \<and> isEnabled AddFunctionBreakpointAction
        (renameFunctionBreakpoint ''fb1'' ''main''
           (snd (AddFunctionBreakpointAction_run ''fb1'' service0))) Inactive"
  using AddFunctionBreakpointAction_isEnabled_iff [of service0 Inactive "''fb1''" "''main''"]
  by (simp add: service0_def)

text \<open>
  Claim C4. When the line, function and exception breakpoints taken together are all
  enabled, or all disabled (the case of no breakpoint at all included), the predicates
  of Enable-all-breakpoints and Disable-all-breakpoints are not both true.
\<close>

theorem enable_disable_all_exclusive:
  "((\<forall>bp \<in> set (getBreakpoints ds). bp_enabled bp)
      \<and> (\<forall>fbp \<in> set (getFunctionBreakpoints ds). fbp_enabled fbp)
      \<and> (\<forall>ebp \<in> set (getExceptionBreakpoints ds). ebp_enabled ebp))
   \<or> ((\<forall>bp \<in> set (getBreakpoints ds). \<not> bp_enabled bp)
      \<and> (\<forall>fbp \<in> set (getFunctionBreakpoints ds). \<not> fbp_enabled fbp)
      \<and> (\<forall>ebp \<in> set (getExceptionBreakpoints ds). \<not> ebp_enabled ebp))
   \<Longrightarrow> \<not> (isEnabled EnableAllBreakpointsAction ds s
          \<and> isEnabled DisableAllBreakpointsAction ds s)"
  by (auto simp: some_iff allEnablements_def)

text \<open>
  No breakpoint at all, and two enabled breakpoints of different kinds.
\<close>

theorem enable_disable_all_exclusive_witness:
  "\<not> (isEnabled EnableAllBreakpointsAction service0 Running
       \<and> isEnabled DisableAllBreakpointsAction service0 Running)
   \<and> isEnabled DisableAllBreakpointsAction
        (service0\<lparr>getBreakpoints := [\<lparr>bp_id = ''b1'', bp_enabled = True\<rparr>],
                   getExceptionBreakpoints := [\<lparr>ebp_filter = ''all'', ebp_enabled = True\<rparr>]\<rparr>)
        Running
   \<and> \<not> isEnabled EnableAllBreakpointsAction
        (service0\<lparr>getBreakpoints := [\<lparr>bp_id = ''b1'', bp_enabled = True\<rparr>],
                   getExceptionBreakpoints := [\<lparr>ebp_filter = ''all'', ebp_enabled = True\<rparr>]\<rparr>)
        Running"
  using enable_disable_all_exclusive [of service0 Running]
    enable_disable_all_exclusive
      [of "service0\<lparr>getBreakpoints := [\<lparr>bp_id = ''b1'', bp_enabled = True\<rparr>],
                     getExceptionBreakpoints := [\<lparr>ebp_filter = ''all'', ebp_enabled = True\<rparr>]\<rparr>"
          Running]
  by (simp add: service0_def allEnablements_def AbstractDebugAction_isEnabled_def)

text \<open>
  Claim C8, as stated, fails: with no watch expression at all the predicate of
  Add-watch-expression is true, since \<^verbatim>\<open>every\<close> holds of the empty array.
\<close>

theorem empty_collection_not_false:
  "getWatchExpressions service0 = [] \<and> isEnabled AddWatchExpressionAction service0 Inactive"
  by (simp add: service0_def AbstractDebugAction_isEnabled_def)

text \<open>
  Claim C8, amended. Recomputing the enablement returns normally for every class and
  every state of the collections, with the value of the predicate. On empty collections
  the predicates that ask for a member or count the members (Remove-all-breakpoints,
  Toggle-breakpoints-activated, Enable-all, Disable-all, Reapply, Remove-all-expressions)
  are false, and the predicates that ask every member for a name are true of the empty
  collection: Add-expression is true, Add-function-breakpoint is true exactly when no
  function breakpoint is selected. The predicate of Start, with no session or no launch,
  is true exactly when the state is not Initializing and there is no session.
\<close>

theorem isEnabled_on_empty_collections:
  "(\<exists>b. call ds cb_updateEnablement payload a = Inr (a\<lparr>enabled := b\<rparr>)
        \<and> b = isEnabled (cls a) ds (state ds))
   \<and> (getBreakpoints ds = [] \<and> getFunctionBreakpoints ds = []
        \<longrightarrow> \<not> isEnabled RemoveAllBreakpointsAction ds s
            \<and> \<not> isEnabled ToggleBreakpointsActivatedAction ds s)
   \<and> (getBreakpoints ds = [] \<and> getFunctionBreakpoints ds = [] \<and> getExceptionBreakpoints ds = []
        \<longrightarrow> \<not> isEnabled EnableAllBreakpointsAction ds s
            \<and> \<not> isEnabled DisableAllBreakpointsAction ds s
            \<and> \<not> isEnabled ReapplyBreakpointsAction ds s)
   \<and> (getWatchExpressions ds = []
        \<longrightarrow> \<not> isEnabled RemoveAllWatchExpressionsAction ds s
            \<and> isEnabled AddWatchExpressionAction ds s)
   \<and> (getFunctionBreakpoints ds = []
        \<longrightarrow> isEnabled AddFunctionBreakpointAction ds s = (getSelectedFunctionBreakpoint ds = None))
   \<and> (getSessions ds = [] \<or> getLaunches ds = []
        \<longrightarrow> isEnabled StartAction ds s
              = (state ds \<noteq> Initializing \<and> getSessions ds = []))"
  by (auto simp: allEnablements_def AbstractDebugAction_isEnabled_def StartAction_isEnabled_def
        updateEnablement_def)

text \<open>
  All predicates on the service with nothing in it.
\<close>

theorem isEnabled_on_empty_collections_witness:
  "call service0 cb_updateEnablement None action0 = Inr (action0\<lparr>enabled := True\<rparr>)
   \<and> \<not> isEnabled RemoveAllBreakpointsAction service0 Running
   \<and> \<not> isEnabled ToggleBreakpointsActivatedAction service0 Running
   \<and> \<not> isEnabled EnableAllBreakpointsAction service0 Running
   \<and> \<not> isEnabled DisableAllBreakpointsAction service0 Running
   \<and> \<not> isEnabled ReapplyBreakpointsAction service0 Running
   \<and> \<not> isEnabled RemoveAllWatchExpressionsAction service0 Running
   \<and> isEnabled AddWatchExpressionAction service0 Running
   \<and> isEnabled AddFunctionBreakpointAction service0 Running
   \<and> isEnabled StartAction service0 Running"
  using isEnabled_on_empty_collections [of service0 None action0 Running]
  by (simp add: service0_def action0_def allEnablements_def AbstractDebugAction_isEnabled_def
        StartAction_isEnabled_def updateEnablement_def)

section \<open>The clipboard bridge is a passthrough\<close>

text \<open>
  Claim C5. The bridge hands the text to the native clipboard and hands back what the
  native clipboard returns, unchanged in both directions. So for a native clipboard
  that returns the text last written, and for every text, writing the text and then
  reading yields that text.
\<close>

theorem clipboard_round_trip:
  "(\<forall>v' c'. native_readText clipboard (native_writeText clipboard v' c') = v')
   \<Longrightarrow> fst (readText clipboard (snd (writeText clipboard v c))) = Resolved v
       \<and> fst (readText clipboard c) = Resolved (native_readText clipboard c)
       \<and> writeText clipboard v c = (Resolved (), native_writeText clipboard v c)"
  by (simp add: readText_def writeText_def)

text \<open>
  The round trip of the text hello through a clipboard that holds one text.
\<close>

theorem clipboard_round_trip_witness:
  "fst (readText text_cell (snd (writeText text_cell ''hello'' ''before''))) = Resolved ''hello''"
proof -
  have law: "\<forall>v' c'. native_readText text_cell (native_writeText text_cell v' c') = v'"
    by (simp add: text_cell_def)
  from clipboard_round_trip [OF law, of "''hello''" "''before''"] show ?thesis
    by (rule conjunct1)
qed

section \<open>Copying a value\<close>

text \<open>
  Claim C6. When the value is a variable with an evaluate name, a stack frame and a
  session are focused, and the evaluation is rejected, the run writes the raw value of
  the variable to the clipboard, its promise resolves, and the evaluation was requested
  once.
\<close>

theorem CopyValueAction_run_fallback:
  "cv_value a = VariableValue var \<Longrightarrow> focusedStackFrame env = Some frameId
   \<Longrightarrow> focusedSession env = Some sess \<Longrightarrow> evaluateName var = Some name \<Longrightarrow> name \<noteq> []
   \<Longrightarrow> evaluate sess name frameId (cv_context a) = Rejected err
   \<Longrightarrow> CopyValueAction_run a env
         = (Resolved (),
            env\<lparr>clipboardText := StringValue (var_value var),
                evaluations := evaluations env @ [(name, frameId, cv_context a)]\<rparr>)"
  by (simp add: CopyValueAction_run_def truthy_def session_evaluate_def
        clipboardService_writeText_def)

text \<open>
  A variable with raw value 42 whose evaluation fails: the clipboard ends with 42 and
  one evaluation was requested.
\<close>

theorem CopyValueAction_run_fallback_witness:
  "CopyValueAction_run
     (fst (CopyValueAction_new ''id'' ''Copy Value'' (VariableValue variable0) ''watch''
             (no_listeners :: callback emitters))) env0
   = (Resolved (),
      env0\<lparr>clipboardText := StringValue ''42'', evaluations := [(''x.y'', 7, ''watch'')]\<rparr>)"
  using CopyValueAction_run_fallback
      [of "fst (CopyValueAction_new ''id'' ''Copy Value'' (VariableValue variable0) ''watch''
             (no_listeners :: callback emitters))" variable0 env0 7 failing_session "''x.y''"
          "EvaluateError ''not available''"]
  by (simp add: CopyValueAction_new_def variable0_def env0_def failing_session_def)

text \<open>
  Claim C9. The constructor leaves the action enabled exactly when the value is a string,
  or a variable whose evaluate name is defined and not empty; it registers no listener
  on any notification stream.
\<close>

theorem CopyValueAction_new_enabled:
  "CopyValueAction_new i l v ctx em = (a, em')
   \<Longrightarrow> enabled a = ((\<exists>s. v = StringValue s)
                    \<or> (\<exists>var name. v = VariableValue var \<and> evaluateName var = Some name \<and> name \<noteq> []))
       \<and> em' = em"
  by (auto simp: CopyValueAction_new_def truthy_opt_def truthy_def split: any.splits option.splits)

text \<open>
  The five kinds of value: a variable with an evaluate name, a string, something else, a
  variable with an empty evaluate name, and one without.
\<close>

theorem CopyValueAction_new_enabled_witness:
  "enabled (fst (CopyValueAction_new ''id'' ''Copy Value'' (VariableValue variable0) ''watch''
                   (no_listeners :: callback emitters)))
   \<and> enabled (fst (CopyValueAction_new ''id'' ''Copy Value'' (StringValue []) ''watch''
                   (no_listeners :: callback emitters)))
   \<and> \<not> enabled (fst (CopyValueAction_new ''id'' ''Copy Value'' OtherValue ''watch''
                   (no_listeners :: callback emitters)))
   \<and> \<not> enabled (fst (CopyValueAction_new ''id'' ''Copy Value''
                     (VariableValue (variable0\<lparr>evaluateName := Some []\<rparr>)) ''watch''
                   (no_listeners :: callback emitters)))
   \<and> \<not> enabled (fst (CopyValueAction_new ''id'' ''Copy Value''
                     (VariableValue (variable0\<lparr>evaluateName := None\<rparr>)) ''watch''
                   (no_listeners :: callback emitters)))
   \<and> snd (CopyValueAction_new ''id'' ''Copy Value'' (VariableValue variable0) ''watch''
                   (no_listeners :: callback emitters)) = no_listeners"
  using CopyValueAction_new_enabled
      [OF surjective_pairing, of "''id''" "''Copy Value''" "VariableValue variable0" "''watch''"
         "no_listeners :: callback emitters"]
    CopyValueAction_new_enabled
      [OF surjective_pairing, of "''id''" "''Copy Value''" "StringValue []" "''watch''"
         "no_listeners :: callback emitters"]
    CopyValueAction_new_enabled
      [OF surjective_pairing, of "''id''" "''Copy Value''" OtherValue "''watch''"
         "no_listeners :: callback emitters"]
    CopyValueAction_new_enabled
      [OF surjective_pairing, of "''id''" "''Copy Value''"
         "VariableValue (variable0\<lparr>evaluateName := Some []\<rparr>)" "''watch''"
         "no_listeners :: callback emitters"]
    CopyValueAction_new_enabled
      [OF surjective_pairing, of "''id''" "''Copy Value''"
         "VariableValue (variable0\<lparr>evaluateName := None\<rparr>)" "''watch''"
         "no_listeners :: callback emitters"]
  by (simp add: variable0_def)

section \<open>Disposal\<close>

text \<open>
  Claim C7. After \<^verbatim>\<open>dispose\<close>, at any point of the life of a constructed debug action,
  no listener of the action is left on any stream and its disposable list is empty, so
  a later notification returns the action as it is, the enabled flag included; a second
  \<^verbatim>\<open>dispose\<close> changes nothing. The same holds of the action of the debug console. The
  Copy-value action registers no listener at all.
\<close>

theorem dispose_releases_every_subscription:
  "(construct c i l dsc emc = Inr (ac, em) \<and> listeners emc = [] \<and> fire_all ns em ac = Inr a
      \<and> dispose (a, em) = (a1, em1)
     \<longrightarrow> listeners em1 = [] \<and> toDispose a1 = [] \<and> enabled a1 = enabled a
         \<and> (\<forall>e payload ds. fire e payload ds em1 a1 = Inr a1)
         \<and> dispose (a1, em1) = (a1, em1))
   \<and> (ToggleReplAction_new ri rl remc = (r, rem) \<and> listeners remc = []
      \<and> ToggleReplAction_dispose (r, rem) = (r1, rem1)
     \<longrightarrow> listeners rem1 = [] \<and> repl_toDispose r1 = [] \<and> enabled r1 = enabled r
         \<and> (\<forall>e panelId. repl_fire e panelId rem1 r1 = Inr r1)
         \<and> ToggleReplAction_dispose (r1, rem1) = (r1, rem1))
   \<and> snd (CopyValueAction_new ci cl v ctx cem) = cem"
proof (intro conjI)
  show "construct c i l dsc emc = Inr (ac, em) \<and> listeners emc = [] \<and> fire_all ns em ac = Inr a
      \<and> dispose (a, em) = (a1, em1)
     \<longrightarrow> listeners em1 = [] \<and> toDispose a1 = [] \<and> enabled a1 = enabled a
         \<and> (\<forall>e payload ds. fire e payload ds em1 a1 = Inr a1)
         \<and> dispose (a1, em1) = (a1, em1)"
    using dispose_releases by blast
  show "ToggleReplAction_new ri rl remc = (r, rem) \<and> listeners remc = []
      \<and> ToggleReplAction_dispose (r, rem) = (r1, rem1)
     \<longrightarrow> listeners rem1 = [] \<and> repl_toDispose r1 = [] \<and> enabled r1 = enabled r
         \<and> (\<forall>e panelId. repl_fire e panelId rem1 r1 = Inr r1)
         \<and> ToggleReplAction_dispose (r1, rem1) = (r1, rem1)"
    using repl_dispose_releases by blast
  show "snd (CopyValueAction_new ci cl v ctx cem) = cem"
    by (simp add: CopyValueAction_new_def)
qed

text \<open>
  The Remove-all-breakpoints action reacts to a breakpoint notification before it is
  disposed and no longer after; disposing it, or the action of the debug console, a
  second time returns the same.
\<close>

theorem dispose_releases_every_subscription_witness:
  "construct RemoveAllBreakpointsAction ''workbench.debug.viewlet.action.removeAllBreakpoints''
      ''Remove All Breakpoints'' service0 no_listeners = Inr (remove_all0, remove_all_emitters)
   \<and> fire onDidChangeBreakpoints None service1 remove_all_emitters remove_all0
       = Inr (remove_all0\<lparr>enabled := True\<rparr>)
   \<and> dispose (remove_all0, remove_all_emitters)
       = (remove_all0\<lparr>toDispose := []\<rparr>, \<lparr>listeners = [], next_id = 2\<rparr>)
   \<and> fire onDidChangeBreakpoints None service1 \<lparr>listeners = [], next_id = 2\<rparr>
        (remove_all0\<lparr>toDispose := []\<rparr>) = Inr (remove_all0\<lparr>toDispose := []\<rparr>)
   \<and> dispose (remove_all0\<lparr>toDispose := []\<rparr>, \<lparr>listeners = [], next_id = 2\<rparr>)
       = (remove_all0\<lparr>toDispose := []\<rparr>, \<lparr>listeners = [], next_id = 2\<rparr>)
   \<and> ToggleReplAction_new ''workbench.debug.action.toggleRepl'' ''Debug Console'' no_listeners
       = (repl0, repl_emitters)
   \<and> ToggleReplAction_dispose (repl0, repl_emitters)
       = (repl0\<lparr>repl_toDispose := []\<rparr>, \<lparr>listeners = [], next_id = 1\<rparr>)
   \<and> ToggleReplAction_dispose (repl0\<lparr>repl_toDispose := []\<rparr>, \<lparr>listeners = [], next_id = 1\<rparr>)
       = (repl0\<lparr>repl_toDispose := []\<rparr>, \<lparr>listeners = [], next_id = 1\<rparr>)"
proof -
  have built: "construct RemoveAllBreakpointsAction
      ''workbench.debug.viewlet.action.removeAllBreakpoints''
      ''Remove All Breakpoints'' service0 no_listeners = Inr (remove_all0, remove_all_emitters)"
    by (simp add: AbstractDebugAction_new_def push_def subscribe_def updateEnablement_def
          updateLabel_def no_listeners_def remove_all0_def remove_all_emitters_def service0_def
          AbstractDebugAction_isEnabled_def)
  have empty: "listeners (no_listeners :: callback emitters) = []"
    by (simp add: no_listeners_def)
  have quiet: "fire_all [] remove_all_emitters remove_all0 = Inr remove_all0"
    by simp
  have live: "fire onDidChangeBreakpoints None service1 remove_all_emitters remove_all0
       = Inr (remove_all0\<lparr>enabled := True\<rparr>)"
    by (simp add: fire_def remove_all_emitters_def remove_all0_def updateEnablement_def
          service0_def service1_def AbstractDebugAction_isEnabled_def)
  have disposed: "dispose (remove_all0, remove_all_emitters)
       = (remove_all0\<lparr>toDispose := []\<rparr>, \<lparr>listeners = [], next_id = 2\<rparr>)"
    by (simp add: dispose_def lifecycle_dispose_def Action_dispose_def dispose_subscription_def
          remove_all0_def remove_all_emitters_def)
  have rbuilt: "ToggleReplAction_new ''workbench.debug.action.toggleRepl'' ''Debug Console''
       no_listeners = (repl0, repl_emitters)"
    by (simp add: ToggleReplAction_new_def registerListeners_def subscribe_def no_listeners_def
          repl0_def repl_emitters_def)
  have rempty: "listeners (no_listeners :: repl_callback emitters) = []"
    by (simp add: no_listeners_def)
  have rdisposed: "ToggleReplAction_dispose (repl0, repl_emitters)
       = (repl0\<lparr>repl_toDispose := []\<rparr>, \<lparr>listeners = [], next_id = 1\<rparr>)"
    by (simp add: ToggleReplAction_dispose_def lifecycle_dispose_def Action_dispose_def
          dispose_subscription_def repl0_def repl_emitters_def)
  note main = dispose_releases_every_subscription
      [where c = RemoveAllBreakpointsAction and dsc = service0
         and i = "''workbench.debug.viewlet.action.removeAllBreakpoints''"
         and l = "''Remove All Breakpoints''" and emc = no_listeners
         and ac = remove_all0 and em = remove_all_emitters and ns = "[]" and a = remove_all0
         and ?a1.0 = "remove_all0\<lparr>toDispose := []\<rparr>"
         and ?em1.0 = "\<lparr>listeners = [], next_id = 2\<rparr>"
         and ri = "''workbench.debug.action.toggleRepl''" and rl = "''Debug Console''"
         and remc = no_listeners and r = repl0 and rem = repl_emitters
         and ?r1.0 = "repl0\<lparr>repl_toDispose := []\<rparr>"
         and ?rem1.0 = "\<lparr>listeners = [], next_id = 1\<rparr>"]
  from main [THEN conjunct1, rule_format,
      OF conjI [OF built conjI [OF empty conjI [OF quiet disposed]]]]
  have after: "fire onDidChangeBreakpoints None service1 \<lparr>listeners = [], next_id = 2\<rparr>
        (remove_all0\<lparr>toDispose := []\<rparr>) = Inr (remove_all0\<lparr>toDispose := []\<rparr>)"
    and twice: "dispose (remove_all0\<lparr>toDispose := []\<rparr>, \<lparr>listeners = [], next_id = 2\<rparr>)
       = (remove_all0\<lparr>toDispose := []\<rparr>, \<lparr>listeners = [], next_id = 2\<rparr>)"
    by blast+
  from main [THEN conjunct2, THEN conjunct1, rule_format,
      OF conjI [OF rbuilt conjI [OF rempty rdisposed]]]
  have rtwice: "ToggleReplAction_dispose
        (repl0\<lparr>repl_toDispose := []\<rparr>, \<lparr>listeners = [], next_id = 1\<rparr>)
       = (repl0\<lparr>repl_toDispose := []\<rparr>, \<lparr>listeners = [], next_id = 1\<rparr>)"
    by blast
  from built live disposed after twice rbuilt rdisposed rtwice show ?thesis
    by (intro conjI)
qed

section \<open>Removing all breakpoints\<close>

text \<open>
  Claim C10. The run of Remove-all-breakpoints leaves no line breakpoint and no function
  breakpoint, and changes nothing else of the service: the exception breakpoints are as
  before. The predicate of the action does not depend on the exception breakpoints
  either.
\<close>

theorem RemoveAllBreakpointsAction_run_frame:
  "RemoveAllBreakpointsAction_run ds = (p, ds')
   \<Longrightarrow> p = Resolved [(), ()]
       \<and> ds' = ds\<lparr>getBreakpoints := [], getFunctionBreakpoints := []\<rparr>
       \<and> getBreakpoints ds' = [] \<and> getFunctionBreakpoints ds' = []
       \<and> getExceptionBreakpoints ds' = getExceptionBreakpoints ds
       \<and> isEnabled RemoveAllBreakpointsAction (ds\<lparr>getExceptionBreakpoints := ebps\<rparr>) s
           = isEnabled RemoveAllBreakpointsAction ds s"
  by (auto simp: RemoveAllBreakpointsAction_run_def removeBreakpoints_def
        removeFunctionBreakpoints_def)

text \<open>
  A service with one breakpoint of each kind: only the exception breakpoint is left.
\<close>

theorem RemoveAllBreakpointsAction_run_frame_witness:
  "snd (RemoveAllBreakpointsAction_run
          (service0\<lparr>getBreakpoints := [\<lparr>bp_id = ''b1'', bp_enabled = True\<rparr>],
                     getFunctionBreakpoints := [\<lparr>fbp_id = ''f1'', fbp_enabled = False, fbp_name = ''main''\<rparr>],
                     getExceptionBreakpoints := [\<lparr>ebp_filter = ''all'', ebp_enabled = True\<rparr>]\<rparr>))
     = service0\<lparr>getExceptionBreakpoints := [\<lparr>ebp_filter = ''all'', ebp_enabled = True\<rparr>]\<rparr>"
  using RemoveAllBreakpointsAction_run_frame
      [OF surjective_pairing,
       of "service0\<lparr>getBreakpoints := [\<lparr>bp_id = ''b1'', bp_enabled = True\<rparr>],
                     getFunctionBreakpoints := [\<lparr>fbp_id = ''f1'', fbp_enabled = False, fbp_name = ''main''\<rparr>],
                     getExceptionBreakpoints := [\<lparr>ebp_filter = ''all'', ebp_enabled = True\<rparr>]\<rparr>"]
  by (simp add: service0_def)

end
